theory Spec2Isabelle
  imports Main
begin

section \<open>The schema of app/models.py\<close>

text \<open>
  The source file declares four string enumerations and a set of SQLModel classes whose
  fields carry declarative constraints (\<open>Field(max_length=..., ge=..., le=..., default=...)\<close>).
  Each class is a record. An argument with a declared default is an \<open>option\<close>:
  \<open>None\<close> stands for "not passed".

  The classes come in two kinds. A schema class (\<open>table=False\<close>: the Create and Update
  classes) validates on construction: its constructor is a function from the keyword
  arguments to either the list of violated constraints or the instance. A persistent class
  (\<open>table=True\<close>) runs no validation in its constructor: the constructor stores the
  arguments as they are and fills in the defaults, and only \<open>model_validate\<close> checks the
  declared constraints. The enumerations derive from \<open>str\<close>, so a field that is not
  validated holds a string, the value of a member when a member was passed.

  Relationship attributes are navigation properties of the object-relational mapper and hold
  no data of their own; they are left out. Python integers are \<open>int\<close>; a \<open>str\<close> is a
  \<open>string\<close> whose \<open>length\<close> is Python's \<open>len\<close>. Each \<open>default_factory\<close> is a call
  of \<open>datetime.utcnow\<close> of its own, so a class with two such fields reads the clock twice.
\<close>

subsection \<open>Enumerations\<close>

datatype DayOfWeek = MONDAY | TUESDAY | WEDNESDAY | THURSDAY | FRIDAY | SATURDAY | SUNDAY

datatype CourseType = THEORY | LAB | PRACTICAL | SEMINAR | PROJECT

datatype RoomType = CLASSROOM | LAB | AUDITORIUM | SEMINAR_HALL | CONFERENCE_ROOM

datatype TimetableStatus = DRAFT | PUBLISHED | ARCHIVED

text \<open>The string value of each member, as written in the class bodies.\<close>

fun DayOfWeek_value :: "DayOfWeek \<Rightarrow> string" where
  "DayOfWeek_value MONDAY = ''MONDAY''"
| "DayOfWeek_value TUESDAY = ''TUESDAY''"
| "DayOfWeek_value WEDNESDAY = ''WEDNESDAY''"
| "DayOfWeek_value THURSDAY = ''THURSDAY''"
| "DayOfWeek_value FRIDAY = ''FRIDAY''"
| "DayOfWeek_value SATURDAY = ''SATURDAY''"
| "DayOfWeek_value SUNDAY = ''SUNDAY''"

fun CourseType_value :: "CourseType \<Rightarrow> string" where
  "CourseType_value THEORY = ''THEORY''"
| "CourseType_value CourseType.LAB = ''LAB''"
| "CourseType_value PRACTICAL = ''PRACTICAL''"
| "CourseType_value SEMINAR = ''SEMINAR''"
| "CourseType_value PROJECT = ''PROJECT''"

fun RoomType_value :: "RoomType \<Rightarrow> string" where
  "RoomType_value CLASSROOM = ''CLASSROOM''"
| "RoomType_value RoomType.LAB = ''LAB''"
| "RoomType_value AUDITORIUM = ''AUDITORIUM''"
| "RoomType_value SEMINAR_HALL = ''SEMINAR_HALL''"
| "RoomType_value CONFERENCE_ROOM = ''CONFERENCE_ROOM''"

fun TimetableStatus_value :: "TimetableStatus \<Rightarrow> string" where
  "TimetableStatus_value DRAFT = ''DRAFT''"
| "TimetableStatus_value PUBLISHED = ''PUBLISHED''"
| "TimetableStatus_value ARCHIVED = ''ARCHIVED''"

text \<open>
  Looking a string up in an enumeration (\<open>DayOfWeek("MONDAY")\<close>): the member whose value
  it is, in declaration order, or nothing.
\<close>

definition DayOfWeek_members :: "DayOfWeek list" where
  "DayOfWeek_members = [MONDAY, TUESDAY, WEDNESDAY, THURSDAY, FRIDAY, SATURDAY, SUNDAY]"

definition CourseType_members :: "CourseType list" where
  "CourseType_members = [THEORY, CourseType.LAB, PRACTICAL, SEMINAR, PROJECT]"

definition RoomType_members :: "RoomType list" where
  "RoomType_members = [CLASSROOM, RoomType.LAB, AUDITORIUM, SEMINAR_HALL, CONFERENCE_ROOM]"

definition TimetableStatus_members :: "TimetableStatus list" where
  "TimetableStatus_members = [DRAFT, PUBLISHED, ARCHIVED]"

definition DayOfWeek_of_str :: "string \<Rightarrow> DayOfWeek option" where
  "DayOfWeek_of_str s = find (\<lambda>m. DayOfWeek_value m = s) DayOfWeek_members"

definition CourseType_of_str :: "string \<Rightarrow> CourseType option" where
  "CourseType_of_str s = find (\<lambda>m. CourseType_value m = s) CourseType_members"

definition RoomType_of_str :: "string \<Rightarrow> RoomType option" where
  "RoomType_of_str s = find (\<lambda>m. RoomType_value m = s) RoomType_members"

definition TimetableStatus_of_str :: "string \<Rightarrow> TimetableStatus option" where
  "TimetableStatus_of_str s = find (\<lambda>m. TimetableStatus_value m = s) TimetableStatus_members"

subsection \<open>Times, timestamps and JSON values\<close>

text \<open>
  A \<open>datetime.time\<close> without time zone: its four components, compared as Python compares
  naive times, lexicographically.
\<close>

record time =
  hour :: nat
  minute :: nat
  second :: nat
  microsecond :: nat

definition time_less :: "time \<Rightarrow> time \<Rightarrow> bool" where
  "time_less a b \<longleftrightarrow>
     hour a < hour b \<or> (hour a = hour b \<and>
      (minute a < minute b \<or> (minute a = minute b \<and>
        (second a < second b \<or> (second a = second b \<and> microsecond a < microsecond b)))))"

text \<open>A \<open>datetime\<close> is a point in time, counted in microseconds.\<close>

type_synonym datetime = int

text \<open>The values a JSON column holds (\<open>Dict[str, Any]\<close>); numbers are integers here.\<close>

datatype json = JNull | JBool bool | JInt int | JStr string | JArr "json list"
  | JObj "(string \<times> json) list"

subsection \<open>Field constraints\<close>

text \<open>A violated constraint names its kind, the field and the bound.\<close>

datatype validation_error =
    string_too_long string nat
  | greater_than_equal string int
  | less_than_equal string int
  | enum_error string

definition check_max_length :: "string \<Rightarrow> nat \<Rightarrow> string \<Rightarrow> validation_error list" where
  "check_max_length fld n s = (if length s \<le> n then [] else [string_too_long fld n])"

definition check_ge :: "string \<Rightarrow> int \<Rightarrow> int \<Rightarrow> validation_error list" where
  "check_ge fld n v = (if n \<le> v then [] else [greater_than_equal fld n])"

definition check_le :: "string \<Rightarrow> int \<Rightarrow> int \<Rightarrow> validation_error list" where
  "check_le fld n v = (if v \<le> n then [] else [less_than_equal fld n])"

text \<open>An \<open>Optional\<close> field is checked only when it holds a value.\<close>

definition check_optional :: "('a \<Rightarrow> validation_error list) \<Rightarrow> 'a option \<Rightarrow> validation_error list" where
  "check_optional chk v = (case v of None \<Rightarrow> [] | Some x \<Rightarrow> chk x)"

definition check_enum :: "string \<Rightarrow> (string \<Rightarrow> 'a option) \<Rightarrow> string \<Rightarrow> validation_error list" where
  "check_enum fld of_str s = (case of_str s of None \<Rightarrow> [enum_error fld] | Some _ \<Rightarrow> [])"

text \<open>A field with a default takes the default when no argument is passed.\<close>

definition with_default :: "'a \<Rightarrow> 'a option \<Rightarrow> 'a" where
  "with_default d v = (case v of None \<Rightarrow> d | Some x \<Rightarrow> x)"

subsection \<open>TimeSlot and TimeSlotCreate\<close>

record TimeSlot =
  id_pk :: "int option"
  name :: string
  start_time :: time
  end_time :: time
  day_of_week :: string
  is_active :: bool
  created_at :: datetime

record TimeSlotCreate =
  name :: string
  start_time :: time
  end_time :: time
  day_of_week :: DayOfWeek

text \<open>
  \<open>TimeSlot(id=None, name, start_time, end_time, day_of_week, is_active=True,
  created_at=utcnow())\<close>: the persistent class, constructed without validation;
  \<open>now\<close> is what \<open>datetime.utcnow\<close> returns at the call.
\<close>

definition TimeSlot_init ::
  "datetime \<Rightarrow> int option \<Rightarrow> string \<Rightarrow> time \<Rightarrow> time \<Rightarrow> string \<Rightarrow> bool option \<Rightarrow> datetime option
   \<Rightarrow> TimeSlot" where
  "TimeSlot_init now a_id a_name a_start_time a_end_time a_day_of_week a_is_active a_created_at =
     \<lparr>TimeSlot.id_pk = a_id, TimeSlot.name = a_name,
      TimeSlot.start_time = a_start_time, TimeSlot.end_time = a_end_time,
      TimeSlot.day_of_week = a_day_of_week,
      TimeSlot.is_active = with_default True a_is_active,
      TimeSlot.created_at = with_default now a_created_at\<rparr>"

text \<open>The constraints TimeSlot and TimeSlotCreate declare, in field order.\<close>

definition TimeSlot_field_errors :: "string \<Rightarrow> string \<Rightarrow> validation_error list" where
  "TimeSlot_field_errors a_name a_day_of_week =
     check_max_length ''name'' 50 a_name
     @ check_enum ''day_of_week'' DayOfWeek_of_str a_day_of_week"

text \<open>\<open>TimeSlot.model_validate\<close>: the declared constraints, then the instance.\<close>

definition TimeSlot_model_validate ::
  "datetime \<Rightarrow> int option \<Rightarrow> string \<Rightarrow> time \<Rightarrow> time \<Rightarrow> string \<Rightarrow> bool option \<Rightarrow> datetime option
   \<Rightarrow> validation_error list + TimeSlot" where
  "TimeSlot_model_validate now a_id a_name a_start_time a_end_time a_day_of_week a_is_active
       a_created_at =
     (case TimeSlot_field_errors a_name a_day_of_week of
        [] \<Rightarrow> Inr (TimeSlot_init now a_id a_name a_start_time a_end_time a_day_of_week
                     a_is_active a_created_at)
      | errs \<Rightarrow> Inl errs)"

text \<open>\<open>TimeSlotCreate(name, start_time, end_time, day_of_week)\<close>: a schema class.\<close>

definition TimeSlotCreate_init ::
  "string \<Rightarrow> time \<Rightarrow> time \<Rightarrow> string \<Rightarrow> validation_error list + TimeSlotCreate" where
  "TimeSlotCreate_init a_name a_start_time a_end_time a_day_of_week =
     (case (check_max_length ''name'' 50 a_name
              @ check_enum ''day_of_week'' DayOfWeek_of_str a_day_of_week,
            DayOfWeek_of_str a_day_of_week) of
        ([], Some d) \<Rightarrow>
          Inr \<lparr>TimeSlotCreate.name = a_name,
               TimeSlotCreate.start_time = a_start_time, TimeSlotCreate.end_time = a_end_time,
               TimeSlotCreate.day_of_week = d\<rparr>
      | (errs, _) \<Rightarrow> Inl errs)"

subsection \<open>Course and CourseCreate\<close>

record Course =
  id_pk :: "int option"
  course_code :: string
  name :: string
  description :: "string option"
  credits :: int
  course_type :: string
  hours_per_week :: int
  required_room_type :: "string option"
  required_equipment :: "string list"
  semester_number :: int
  department_id :: int
  prerequisites :: "int list"
  is_active :: bool
  created_at :: datetime
  updated_at :: datetime

record CourseCreate =
  course_code :: string
  name :: string
  description :: "string option"
  credits :: int
  course_type :: CourseType
  hours_per_week :: int
  required_room_type :: "RoomType option"
  required_equipment :: "string list"
  semester_number :: int
  department_id :: int
  prerequisites :: "int list"

text \<open>
  An \<open>Optional\<close> enumeration field: no value stays no value, a string must be the value
  of a member.
\<close>

definition optional_enum :: "(string \<Rightarrow> 'a option) \<Rightarrow> string option \<Rightarrow> 'a option option" where
  "optional_enum of_str v = (case v of None \<Rightarrow> Some None | Some s \<Rightarrow> map_option Some (of_str s))"

text \<open>The constraints the two classes declare on the fields they share, in field order.\<close>

definition Course_field_errors ::
  "string \<Rightarrow> string \<Rightarrow> string option \<Rightarrow> int \<Rightarrow> string \<Rightarrow> int \<Rightarrow> string option \<Rightarrow> int
   \<Rightarrow> validation_error list" where
  "Course_field_errors a_course_code a_name a_description a_credits a_course_type
       a_hours_per_week a_required_room_type a_semester_number =
     check_max_length ''course_code'' 20 a_course_code
     @ check_max_length ''name'' 200 a_name
     @ check_optional (check_max_length ''description'' 1000) a_description
     @ check_ge ''credits'' 1 a_credits @ check_le ''credits'' 10 a_credits
     @ check_enum ''course_type'' CourseType_of_str a_course_type
     @ check_ge ''hours_per_week'' 1 a_hours_per_week
     @ check_le ''hours_per_week'' 10 a_hours_per_week
     @ check_optional (check_enum ''required_room_type'' RoomType_of_str) a_required_room_type
     @ check_ge ''semester_number'' 1 a_semester_number
     @ check_le ''semester_number'' 8 a_semester_number"

text \<open>
  \<open>Course(...)\<close>: the persistent class, constructed without validation;
  \<open>now_created\<close> and \<open>now_updated\<close> are what the two calls of \<open>datetime.utcnow\<close>
  return.
\<close>

definition Course_init ::
  "datetime \<Rightarrow> datetime \<Rightarrow> int option \<Rightarrow> string \<Rightarrow> string \<Rightarrow> string option \<Rightarrow> int \<Rightarrow> string
   \<Rightarrow> int \<Rightarrow> string option \<Rightarrow> string list option \<Rightarrow> int \<Rightarrow> int \<Rightarrow> int list option
   \<Rightarrow> bool option \<Rightarrow> datetime option \<Rightarrow> datetime option \<Rightarrow> Course" where
  "Course_init now_created now_updated a_id a_course_code a_name a_description a_credits
       a_course_type a_hours_per_week a_required_room_type a_required_equipment
       a_semester_number a_department_id a_prerequisites a_is_active a_created_at a_updated_at =
     \<lparr>Course.id_pk = a_id, Course.course_code = a_course_code, Course.name = a_name,
      Course.description = a_description, Course.credits = a_credits,
      Course.course_type = a_course_type, Course.hours_per_week = a_hours_per_week,
      Course.required_room_type = a_required_room_type,
      Course.required_equipment = with_default [] a_required_equipment,
      Course.semester_number = a_semester_number,
      Course.department_id = a_department_id,
      Course.prerequisites = with_default [] a_prerequisites,
      Course.is_active = with_default True a_is_active,
      Course.created_at = with_default now_created a_created_at,
      Course.updated_at = with_default now_updated a_updated_at\<rparr>"

text \<open>\<open>Course.model_validate\<close>: the declared constraints, then the instance.\<close>

definition Course_model_validate ::
  "datetime \<Rightarrow> datetime \<Rightarrow> int option \<Rightarrow> string \<Rightarrow> string \<Rightarrow> string option \<Rightarrow> int \<Rightarrow> string
   \<Rightarrow> int \<Rightarrow> string option \<Rightarrow> string list option \<Rightarrow> int \<Rightarrow> int \<Rightarrow> int list option
   \<Rightarrow> bool option \<Rightarrow> datetime option \<Rightarrow> datetime option
   \<Rightarrow> validation_error list + Course" where
  "Course_model_validate now_created now_updated a_id a_course_code a_name a_description
       a_credits a_course_type a_hours_per_week a_required_room_type a_required_equipment
       a_semester_number a_department_id a_prerequisites a_is_active a_created_at a_updated_at =
     (case Course_field_errors a_course_code a_name a_description a_credits a_course_type
             a_hours_per_week a_required_room_type a_semester_number of
        [] \<Rightarrow>
          Inr (Course_init now_created now_updated a_id a_course_code a_name a_description
                 a_credits a_course_type a_hours_per_week a_required_room_type
                 a_required_equipment a_semester_number a_department_id a_prerequisites
                 a_is_active a_created_at a_updated_at)
      | errs \<Rightarrow> Inl errs)"

text \<open>\<open>CourseCreate(...)\<close>: a schema class.\<close>

definition CourseCreate_init ::
  "string \<Rightarrow> string \<Rightarrow> string option \<Rightarrow> int \<Rightarrow> string \<Rightarrow> int
   \<Rightarrow> string option \<Rightarrow> string list option \<Rightarrow> int \<Rightarrow> int \<Rightarrow> int list option
   \<Rightarrow> validation_error list + CourseCreate" where
  "CourseCreate_init a_course_code a_name a_description a_credits a_course_type
       a_hours_per_week a_required_room_type a_required_equipment a_semester_number
       a_department_id a_prerequisites =
     (case (Course_field_errors a_course_code a_name a_description a_credits a_course_type
              a_hours_per_week a_required_room_type a_semester_number,
            CourseType_of_str a_course_type,
            optional_enum RoomType_of_str a_required_room_type) of
        ([], Some ct, Some rt) \<Rightarrow>
          Inr \<lparr>CourseCreate.course_code = a_course_code, CourseCreate.name = a_name,
               CourseCreate.description = a_description, CourseCreate.credits = a_credits,
               CourseCreate.course_type = ct, CourseCreate.hours_per_week = a_hours_per_week,
               CourseCreate.required_room_type = rt,
               CourseCreate.required_equipment = with_default [] a_required_equipment,
               CourseCreate.semester_number = a_semester_number,
               CourseCreate.department_id = a_department_id,
               CourseCreate.prerequisites = with_default [] a_prerequisites\<rparr>
      | (errs, _, _) \<Rightarrow> Inl errs)"

subsection \<open>Teacher, TeacherCreate and TeacherUpdate\<close>

record Teacher =
  id_pk :: "int option"
  employee_id :: string
  first_name :: string
  last_name :: string
  email :: string
  phone :: "string option"
  department_id :: int
  specializations :: "string list"
  max_hours_per_week :: int
  preferred_time_slots :: "int list"
  unavailable_days :: "string list"
  is_active :: bool
  created_at :: datetime
  updated_at :: datetime

record TeacherCreate =
  employee_id :: string
  first_name :: string
  last_name :: string
  email :: string
  phone :: "string option"
  department_id :: int
  specializations :: "string list"
  max_hours_per_week :: int
  preferred_time_slots :: "int list"
  unavailable_days :: "string list"

record TeacherUpdate =
  first_name :: "string option"
  last_name :: "string option"
  email :: "string option"
  phone :: "string option"
  specializations :: "string list option"
  max_hours_per_week :: "int option"
  preferred_time_slots :: "int list option"
  unavailable_days :: "string list option"
  is_active :: "bool option"

text \<open>
  \<open>max_hours_per_week\<close> is declared \<open>Field(default=20, ge=1, le=40)\<close>; the three list
  fields are declared \<open>List[str]\<close> or \<open>List[int]\<close> with no constraint on their elements.
\<close>

definition Teacher_field_errors ::
  "string \<Rightarrow> string \<Rightarrow> string \<Rightarrow> string \<Rightarrow> string option \<Rightarrow> int \<Rightarrow> validation_error list" where
  "Teacher_field_errors a_employee_id a_first_name a_last_name a_email a_phone
       v_max_hours_per_week =
     check_max_length ''employee_id'' 20 a_employee_id
     @ check_max_length ''first_name'' 50 a_first_name
     @ check_max_length ''last_name'' 50 a_last_name
     @ check_max_length ''email'' 255 a_email
     @ check_optional (check_max_length ''phone'' 20) a_phone
     @ check_ge ''max_hours_per_week'' 1 v_max_hours_per_week
     @ check_le ''max_hours_per_week'' 40 v_max_hours_per_week"

text \<open>
  \<open>Teacher(...)\<close>: the persistent class, constructed without validation;
  \<open>now_created\<close> and \<open>now_updated\<close> are what the two calls of \<open>datetime.utcnow\<close>
  return.
\<close>

definition Teacher_init ::
  "datetime \<Rightarrow> datetime \<Rightarrow> int option \<Rightarrow> string \<Rightarrow> string \<Rightarrow> string \<Rightarrow> string
   \<Rightarrow> string option \<Rightarrow> int \<Rightarrow> string list option \<Rightarrow> int option \<Rightarrow> int list option
   \<Rightarrow> string list option \<Rightarrow> bool option \<Rightarrow> datetime option \<Rightarrow> datetime option \<Rightarrow> Teacher" where
  "Teacher_init now_created now_updated a_id a_employee_id a_first_name a_last_name a_email
       a_phone a_department_id a_specializations a_max_hours_per_week a_preferred_time_slots
       a_unavailable_days a_is_active a_created_at a_updated_at =
     \<lparr>Teacher.id_pk = a_id, Teacher.employee_id = a_employee_id,
      Teacher.first_name = a_first_name, Teacher.last_name = a_last_name,
      Teacher.email = a_email, Teacher.phone = a_phone,
      Teacher.department_id = a_department_id,
      Teacher.specializations = with_default [] a_specializations,
      Teacher.max_hours_per_week = with_default 20 a_max_hours_per_week,
      Teacher.preferred_time_slots = with_default [] a_preferred_time_slots,
      Teacher.unavailable_days = with_default [] a_unavailable_days,
      Teacher.is_active = with_default True a_is_active,
      Teacher.created_at = with_default now_created a_created_at,
      Teacher.updated_at = with_default now_updated a_updated_at\<rparr>"

text \<open>\<open>Teacher.model_validate\<close>: the declared constraints, then the instance.\<close>

definition Teacher_model_validate ::
  "datetime \<Rightarrow> datetime \<Rightarrow> int option \<Rightarrow> string \<Rightarrow> string \<Rightarrow> string \<Rightarrow> string
   \<Rightarrow> string option \<Rightarrow> int \<Rightarrow> string list option \<Rightarrow> int option \<Rightarrow> int list option
   \<Rightarrow> string list option \<Rightarrow> bool option \<Rightarrow> datetime option \<Rightarrow> datetime option
   \<Rightarrow> validation_error list + Teacher" where
  "Teacher_model_validate now_created now_updated a_id a_employee_id a_first_name a_last_name
       a_email a_phone a_department_id a_specializations a_max_hours_per_week
       a_preferred_time_slots a_unavailable_days a_is_active a_created_at a_updated_at =
     (case Teacher_field_errors a_employee_id a_first_name a_last_name a_email a_phone
             (with_default 20 a_max_hours_per_week) of
        [] \<Rightarrow>
          Inr (Teacher_init now_created now_updated a_id a_employee_id a_first_name a_last_name
                 a_email a_phone a_department_id a_specializations a_max_hours_per_week
                 a_preferred_time_slots a_unavailable_days a_is_active a_created_at
                 a_updated_at)
      | errs \<Rightarrow> Inl errs)"

text \<open>\<open>TeacherCreate(...)\<close>: a schema class.\<close>

definition TeacherCreate_init ::
  "string \<Rightarrow> string \<Rightarrow> string \<Rightarrow> string \<Rightarrow> string option \<Rightarrow> int
   \<Rightarrow> string list option \<Rightarrow> int option \<Rightarrow> int list option \<Rightarrow> string list option
   \<Rightarrow> validation_error list + TeacherCreate" where
  "TeacherCreate_init a_employee_id a_first_name a_last_name a_email a_phone a_department_id
       a_specializations a_max_hours_per_week a_preferred_time_slots a_unavailable_days =
     (case Teacher_field_errors a_employee_id a_first_name a_last_name a_email a_phone
             (with_default 20 a_max_hours_per_week) of
        [] \<Rightarrow>
          Inr \<lparr>TeacherCreate.employee_id = a_employee_id,
               TeacherCreate.first_name = a_first_name, TeacherCreate.last_name = a_last_name,
               TeacherCreate.email = a_email, TeacherCreate.phone = a_phone,
               TeacherCreate.department_id = a_department_id,
               TeacherCreate.specializations = with_default [] a_specializations,
               TeacherCreate.max_hours_per_week = with_default 20 a_max_hours_per_week,
               TeacherCreate.preferred_time_slots = with_default [] a_preferred_time_slots,
               TeacherCreate.unavailable_days = with_default [] a_unavailable_days\<rparr>
      | errs \<Rightarrow> Inl errs)"

text \<open>Every field of \<open>TeacherUpdate\<close> is \<open>Optional\<close> with default \<open>None\<close>.\<close>

definition TeacherUpdate_init ::
  "string option \<Rightarrow> string option \<Rightarrow> string option \<Rightarrow> string option \<Rightarrow> string list option
   \<Rightarrow> int option \<Rightarrow> int list option \<Rightarrow> string list option \<Rightarrow> bool option
   \<Rightarrow> validation_error list + TeacherUpdate" where
  "TeacherUpdate_init a_first_name a_last_name a_email a_phone a_specializations
       a_max_hours_per_week a_preferred_time_slots a_unavailable_days a_is_active =
     (case check_optional (check_max_length ''first_name'' 50) a_first_name
           @ check_optional (check_max_length ''last_name'' 50) a_last_name
           @ check_optional (check_max_length ''email'' 255) a_email
           @ check_optional (check_max_length ''phone'' 20) a_phone
           @ check_optional (check_ge ''max_hours_per_week'' 1) a_max_hours_per_week
           @ check_optional (check_le ''max_hours_per_week'' 40) a_max_hours_per_week of
        [] \<Rightarrow>
          Inr \<lparr>TeacherUpdate.first_name = a_first_name, TeacherUpdate.last_name = a_last_name,
               TeacherUpdate.email = a_email, TeacherUpdate.phone = a_phone,
               TeacherUpdate.specializations = a_specializations,
               TeacherUpdate.max_hours_per_week = a_max_hours_per_week,
               TeacherUpdate.preferred_time_slots = a_preferred_time_slots,
               TeacherUpdate.unavailable_days = a_unavailable_days,
               TeacherUpdate.is_active = a_is_active\<rparr>
      | errs \<Rightarrow> Inl errs)"

subsection \<open>Timetable, TimetableCreate and TimetableEntry\<close>

record Timetable =
  id_pk :: "int option"
  name :: string
  semester_id :: int
  status :: string
  generation_rules :: "string \<rightharpoonup> json"
  created_at :: datetime
  updated_at :: datetime
  generated_at :: "datetime option"
  generated_by :: "string option"

record TimetableCreate =
  name :: string
  semester_id :: int
  generation_rules :: "string \<rightharpoonup> json"

record TimetableEntry =
  id_pk :: "int option"
  timetable_id :: int
  course_id :: int
  teacher_id :: int
  room_id :: int
  section_id :: int
  time_slot_id :: int
  "notes" :: "string option"
  created_at :: datetime
  updated_at :: datetime

text \<open>
  \<open>Timetable(...)\<close>: the persistent class, constructed without validation; the default
  of \<open>status\<close> is the member DRAFT.
\<close>

definition Timetable_init ::
  "datetime \<Rightarrow> datetime \<Rightarrow> int option \<Rightarrow> string \<Rightarrow> int \<Rightarrow> string option
   \<Rightarrow> (string \<rightharpoonup> json) option \<Rightarrow> datetime option \<Rightarrow> datetime option \<Rightarrow> datetime option
   \<Rightarrow> string option \<Rightarrow> Timetable" where
  "Timetable_init now_created now_updated a_id a_name a_semester_id a_status a_generation_rules
       a_created_at a_updated_at a_generated_at a_generated_by =
     \<lparr>Timetable.id_pk = a_id, Timetable.name = a_name,
      Timetable.semester_id = a_semester_id,
      Timetable.status = with_default (TimetableStatus_value DRAFT) a_status,
      Timetable.generation_rules = with_default Map.empty a_generation_rules,
      Timetable.created_at = with_default now_created a_created_at,
      Timetable.updated_at = with_default now_updated a_updated_at,
      Timetable.generated_at = a_generated_at,
      Timetable.generated_by = a_generated_by\<rparr>"

text \<open>\<open>Timetable.model_validate\<close>: the declared constraints, then the instance.\<close>

definition Timetable_field_errors :: "string \<Rightarrow> string option \<Rightarrow> string option \<Rightarrow> validation_error list" where
  "Timetable_field_errors a_name a_status a_generated_by =
     check_max_length ''name'' 100 a_name
     @ check_optional (check_enum ''status'' TimetableStatus_of_str) a_status
     @ check_optional (check_max_length ''generated_by'' 100) a_generated_by"

definition Timetable_model_validate ::
  "datetime \<Rightarrow> datetime \<Rightarrow> int option \<Rightarrow> string \<Rightarrow> int \<Rightarrow> string option
   \<Rightarrow> (string \<rightharpoonup> json) option \<Rightarrow> datetime option \<Rightarrow> datetime option \<Rightarrow> datetime option
   \<Rightarrow> string option \<Rightarrow> validation_error list + Timetable" where
  "Timetable_model_validate now_created now_updated a_id a_name a_semester_id a_status
       a_generation_rules a_created_at a_updated_at a_generated_at a_generated_by =
     (case Timetable_field_errors a_name a_status a_generated_by of
        [] \<Rightarrow>
          Inr (Timetable_init now_created now_updated a_id a_name a_semester_id a_status
                 a_generation_rules a_created_at a_updated_at a_generated_at a_generated_by)
      | errs \<Rightarrow> Inl errs)"

text \<open>\<open>TimetableCreate(name, semester_id, generation_rules={})\<close>: a schema class.\<close>

definition TimetableCreate_init ::
  "string \<Rightarrow> int \<Rightarrow> (string \<rightharpoonup> json) option \<Rightarrow> validation_error list + TimetableCreate" where
  "TimetableCreate_init a_name a_semester_id a_generation_rules =
     (case check_max_length ''name'' 100 a_name of
        [] \<Rightarrow>
          Inr \<lparr>TimetableCreate.name = a_name, TimetableCreate.semester_id = a_semester_id,
               TimetableCreate.generation_rules = with_default Map.empty a_generation_rules\<rparr>
      | errs \<Rightarrow> Inl errs)"

section \<open>The generation engine\<close>

text \<open>
  Modelled from the spec: the timetable generation engine (constraint model, solver,
  conflict reporter and result materializer of sections 3, 4, 6 and 7 of the specification).
  app/models.py declares only the schema; no function of the engine is in the source, so
  every definition of this section follows the specification's words. The run starts from
  the loaded snapshot. Left out: the soft-constraint score of the generation report and the
  human-readable explanation text of a conflict.
\<close>

subsection \<open>Working set\<close>

text \<open>
  Modelled from the spec: the working-set entities of section 3. A demand carries the capacity
  of its section, which room fitness compares against; a teacher's eligible courses are the
  teacher's active course assignments, each with its \<open>is_primary\<close> flag.
\<close>

record CourseDemand =
  course_id :: int
  section_id :: int
  section_capacity :: int
  hours_per_week :: int
  course_type :: CourseType
  required_room_type :: "RoomType option"
  required_equipment :: "string list"

record TeacherCapacity =
  teacher_id :: int
  eligible_courses :: "(int \<times> bool) list"
  max_hours_per_week :: int
  unavailable_days :: "DayOfWeek list"
  preferred_slots :: "int list"

record RoomResource =
  room_id :: int
  capacity :: int
  room_type :: RoomType
  equipment :: "string list"
  is_available :: bool

record TimeSlotResource =
  slot_id :: int
  day :: DayOfWeek
  start_time :: time
  end_time :: time

record Assignment =
  course_id :: int
  section_id :: int
  teacher_id :: int
  room_id :: int
  time_slot_id :: int

record Snapshot =
  demands :: "CourseDemand list"
  teachers :: "TeacherCapacity list"
  rooms :: "RoomResource list"
  slots :: "TimeSlotResource list"
  published_entries :: "TimetableEntry list"

text \<open>
  Modelled from the spec: the options of \<open>generation_rules\<close> (section 6) that direct the
  search, read from the dictionary the Timetable class stores.
\<close>

definition max_search_steps :: "(string \<rightharpoonup> json) \<Rightarrow> nat" where
  "max_search_steps rules =
     (case rules ''max_search_steps'' of Some (JInt n) \<Rightarrow> nat n | _ \<Rightarrow> 200000)"

definition lock_existing_entries :: "(string \<rightharpoonup> json) \<Rightarrow> bool" where
  "lock_existing_entries rules =
     (case rules ''lock_existing_entries'' of Some (JBool b) \<Rightarrow> b | _ \<Rightarrow> False)"

subsection \<open>Constraint model\<close>

datatype constraint_kind =
    TeacherEligibility | TeacherNonOverlap | RoomNonOverlap | SectionNonOverlap
  | RoomFitness | TeacherAvailability | TeacherLoad | WeeklyCoverage

datatype model_error_reason = NoEligibleTeacher | NoFittingRoom

type_synonym demand_key = "int \<times> int"

text \<open>
  Modelled from the spec: a conflict names the violated constraint kind and the demand (its
  course and section ids) it was recorded for; the error taxonomy is that of section 7, without
  the loader's SnapshotError.
\<close>

record Conflict =
  kind :: constraint_kind
  demand :: demand_key

datatype engine_error =
    ModelError CourseDemand model_error_reason
  | SearchConflict "Conflict list"
  | TimeoutError

text \<open>
  Modelled from the spec: hard constraint 1 (the teacher's eligible-course set contains the
  demand's course) and hard constraint 5 (capacity, required room type, required equipment),
  on a room whose availability flag is set.
\<close>

definition eligible_teachers :: "Snapshot \<Rightarrow> CourseDemand \<Rightarrow> TeacherCapacity list" where
  "eligible_teachers snap d =
     filter (\<lambda>t. CourseDemand.course_id d \<in> set (map fst (eligible_courses t))) (teachers snap)"

definition room_fits :: "CourseDemand \<Rightarrow> RoomResource \<Rightarrow> bool" where
  "room_fits d r \<longleftrightarrow>
     is_available r
     \<and> section_capacity d \<le> capacity r
     \<and> (case CourseDemand.required_room_type d of None \<Rightarrow> True | Some rt \<Rightarrow> room_type r = rt)
     \<and> set (CourseDemand.required_equipment d) \<subseteq> set (equipment r)"

definition fitting_rooms :: "Snapshot \<Rightarrow> CourseDemand \<Rightarrow> RoomResource list" where
  "fitting_rooms snap d = filter (room_fits d) (rooms snap)"

text \<open>
  Modelled from the spec: construction fails with a ModelError if a demand has zero eligible
  teachers or zero fitting rooms; the error carries the demand and the reason.
\<close>

fun check_demands :: "Snapshot \<Rightarrow> CourseDemand list \<Rightarrow> engine_error option" where
  "check_demands snap [] = None"
| "check_demands snap (d # ds) =
     (if eligible_teachers snap d = [] then Some (ModelError d NoEligibleTeacher)
      else if fitting_rooms snap d = [] then Some (ModelError d NoFittingRoom)
      else check_demands snap ds)"

text \<open>
  Modelled from the spec: the candidates of a demand are the (teacher, room, slot) triples
  that meet the static hard constraints 1, 5 and 6 (the slot's day is not among the teacher's
  unavailable days), in tie-break order: a preferred-slot match first, then the primary
  teacher, then the lowest slot id. The three stable sorts, least significant key first,
  give that lexicographic order.
\<close>

definition preferred_key :: "TeacherCapacity \<times> RoomResource \<times> TimeSlotResource \<Rightarrow> nat" where
  "preferred_key c = (case c of (t, r, s) \<Rightarrow> if slot_id s \<in> set (preferred_slots t) then 0 else 1)"

definition primary_key :: "CourseDemand \<Rightarrow> TeacherCapacity \<times> RoomResource \<times> TimeSlotResource \<Rightarrow> nat" where
  "primary_key d c =
     (case c of (t, r, s) \<Rightarrow>
        if (CourseDemand.course_id d, True) \<in> set (eligible_courses t) then 0 else 1)"

definition slot_key :: "TeacherCapacity \<times> RoomResource \<times> TimeSlotResource \<Rightarrow> int" where
  "slot_key c = (case c of (t, r, s) \<Rightarrow> slot_id s)"

definition tie_break :: "CourseDemand \<Rightarrow> (TeacherCapacity \<times> RoomResource \<times> TimeSlotResource) list
    \<Rightarrow> (TeacherCapacity \<times> RoomResource \<times> TimeSlotResource) list" where
  "tie_break d cs = sort_key preferred_key (sort_key (primary_key d) (sort_key slot_key cs))"

definition assignment_of :: "CourseDemand \<Rightarrow> TeacherCapacity \<times> RoomResource \<times> TimeSlotResource
    \<Rightarrow> Assignment" where
  "assignment_of d c =
     (case c of (t, r, s) \<Rightarrow>
        \<lparr>Assignment.course_id = CourseDemand.course_id d,
         Assignment.section_id = CourseDemand.section_id d,
         Assignment.teacher_id = TeacherCapacity.teacher_id t,
         Assignment.room_id = RoomResource.room_id r,
         Assignment.time_slot_id = slot_id s\<rparr>)"

definition candidates :: "Snapshot \<Rightarrow> CourseDemand \<Rightarrow> Assignment list" where
  "candidates snap d =
     map (assignment_of d)
       (tie_break d
         (concat (map (\<lambda>t. concat (map (\<lambda>r.
            map (\<lambda>s. (t, r, s))
              (filter (\<lambda>s. day s \<notin> set (TeacherCapacity.unavailable_days t)) (slots snap)))
            (fitting_rooms snap d)))
          (eligible_teachers snap d))))"

text \<open>
  Modelled from the spec: a decision variable is one hour-unit of a demand, named by the
  demand's course and section ids, with the candidates still open to it. With
  \<open>lock_existing_entries\<close> the previously published entries are pre-assigned: each is a
  variable whose only candidate is the entry's own triple, and it uses up one hour-unit of
  its demand. The demands are ordered most-constrained-first (fewest candidates), a demand of
  N weekly hours giving N variables.
\<close>

type_synonym variable = "demand_key \<times> Assignment list"

definition assignment_of_entry :: "TimetableEntry \<Rightarrow> Assignment" where
  "assignment_of_entry e =
     \<lparr>Assignment.course_id = TimetableEntry.course_id e,
      Assignment.section_id = TimetableEntry.section_id e,
      Assignment.teacher_id = TimetableEntry.teacher_id e,
      Assignment.room_id = TimetableEntry.room_id e,
      Assignment.time_slot_id = TimetableEntry.time_slot_id e\<rparr>"

definition locked_entries :: "(string \<rightharpoonup> json) \<Rightarrow> Snapshot \<Rightarrow> TimetableEntry list" where
  "locked_entries rules snap = (if lock_existing_entries rules then published_entries snap else [])"

definition locked_variables :: "(string \<rightharpoonup> json) \<Rightarrow> Snapshot \<Rightarrow> variable list" where
  "locked_variables rules snap =
     map (\<lambda>e. ((TimetableEntry.course_id e, TimetableEntry.section_id e), [assignment_of_entry e]))
       (locked_entries rules snap)"

definition open_units :: "(string \<rightharpoonup> json) \<Rightarrow> Snapshot \<Rightarrow> CourseDemand \<Rightarrow> nat" where
  "open_units rules snap d =
     nat (CourseDemand.hours_per_week d)
     - length (filter (\<lambda>e. TimetableEntry.course_id e = CourseDemand.course_id d
                          \<and> TimetableEntry.section_id e = CourseDemand.section_id d)
                (locked_entries rules snap))"

definition demand_variables :: "(string \<rightharpoonup> json) \<Rightarrow> Snapshot \<Rightarrow> variable list" where
  "demand_variables rules snap =
     concat (map (\<lambda>d. replicate (open_units rules snap d)
                        ((CourseDemand.course_id d, CourseDemand.section_id d), candidates snap d))
              (sort_key (\<lambda>d. length (candidates snap d)) (demands snap)))"

definition build_model :: "(string \<rightharpoonup> json) \<Rightarrow> Snapshot \<Rightarrow> engine_error + variable list" where
  "build_model rules snap =
     (case check_demands snap (demands snap) of
        Some e \<Rightarrow> Inl e
      | None \<Rightarrow> Inr (locked_variables rules snap @ demand_variables rules snap))"

subsection \<open>Solver\<close>

text \<open>
  Modelled from the spec: two time slots overlap when they are the same slot, or lie on the
  same day with intersecting intervals. Slots are looked up in the snapshot by id.
\<close>

definition overlapping :: "TimeSlotResource \<Rightarrow> TimeSlotResource \<Rightarrow> bool" where
  "overlapping a b \<longleftrightarrow>
     day a = day b
     \<and> time_less (TimeSlotResource.start_time a) (TimeSlotResource.end_time b)
     \<and> time_less (TimeSlotResource.start_time b) (TimeSlotResource.end_time a)"

definition find_slot :: "Snapshot \<Rightarrow> int \<Rightarrow> TimeSlotResource option" where
  "find_slot snap i = find (\<lambda>s. slot_id s = i) (slots snap)"

definition slots_overlap :: "Snapshot \<Rightarrow> int \<Rightarrow> int \<Rightarrow> bool" where
  "slots_overlap snap i j \<longleftrightarrow>
     i = j \<or> (case (find_slot snap i, find_slot snap j) of
                (Some a, Some b) \<Rightarrow> overlapping a b
              | _ \<Rightarrow> False)"

text \<open>
  Modelled from the spec: hard constraint 7. Every assignment is one hour-unit, so a teacher's
  load is the number of assignments the teacher holds.
\<close>

definition teacher_load :: "int \<Rightarrow> Assignment list \<Rightarrow> nat" where
  "teacher_load t acc = length (filter (\<lambda>b. Assignment.teacher_id b = t) acc)"

definition load_exceeded :: "Snapshot \<Rightarrow> Assignment \<Rightarrow> Assignment list \<Rightarrow> bool" where
  "load_exceeded snap a acc =
     (case find (\<lambda>t. TeacherCapacity.teacher_id t = Assignment.teacher_id a) (teachers snap) of
        None \<Rightarrow> False
      | Some t \<Rightarrow>
          TeacherCapacity.max_hours_per_week t < int (teacher_load (Assignment.teacher_id a) acc) + 1)"

text \<open>
  Modelled from the spec: the non-overlap constraint (hard constraints 2 to 4) that two
  assignments violate together, if any: their time slots overlap and they share the teacher,
  the room or the section. Two hour-units of one demand share the section, so section
  non-overlap also keeps their slots distinct (constraint 8).
\<close>

definition clash_kind :: "Snapshot \<Rightarrow> Assignment \<Rightarrow> Assignment \<Rightarrow> constraint_kind option" where
  "clash_kind snap a b =
     (if \<not> slots_overlap snap (Assignment.time_slot_id a) (Assignment.time_slot_id b) then None
      else if Assignment.teacher_id a = Assignment.teacher_id b then Some TeacherNonOverlap
      else if Assignment.room_id a = Assignment.room_id b then Some RoomNonOverlap
      else if Assignment.section_id a = Assignment.section_id b then Some SectionNonOverlap
      else None)"

text \<open>
  Modelled from the spec: the hard constraint that blocks a candidate relative to all prior
  choices of the partial assignment, if any: a non-overlap constraint violated with a prior
  choice, the most recent such choice first, or else the teacher's load.
\<close>

definition blocking :: "Snapshot \<Rightarrow> Assignment \<Rightarrow> Assignment list \<Rightarrow> constraint_kind option" where
  "blocking snap a acc =
     (case List.map_filter (clash_kind snap a) acc of
        k # ks \<Rightarrow> Some k
      | [] \<Rightarrow> if load_exceeded snap a acc then Some TeacherLoad else None)"

text \<open>
  Modelled from the spec: propagation. After a tentative assignment, the candidates of the
  variables not yet assigned that use its teacher, room or section at an overlapping slot are
  eliminated; each elimination is recorded with the constraint that caused it.
\<close>

type_synonym trail = "(demand_key \<times> constraint_kind) list"

definition propagate :: "Snapshot \<Rightarrow> Assignment \<Rightarrow> variable list \<Rightarrow> variable list" where
  "propagate snap a vs =
     map (\<lambda>v. (fst v, filter (\<lambda>c. clash_kind snap c a = None) (snd v))) vs"

definition eliminated :: "Snapshot \<Rightarrow> Assignment \<Rightarrow> variable list \<Rightarrow> trail" where
  "eliminated snap a vs =
     concat (map (\<lambda>v. List.map_filter (\<lambda>c. map_option (Pair (fst v)) (clash_kind snap c a))
                        (snd v)) vs)"

text \<open>
  Modelled from the spec: depth-first backtracking search with propagation. The budget is
  checked before each tentative assignment and each costs one step. A candidate that a hard
  constraint blocks is recorded with that constraint; otherwise it is assigned and the
  remaining candidates are pruned. A variable whose candidates are exhausted sends the search
  back to the most recent assignment, which is undone and replaced by its next candidate.
  The search ends with every variable assigned, with the candidates of the first variable
  exhausted, or with the budget used up. The partial assignment holds the most recent choice
  first; the second component of the result is the budget that is left.
\<close>

datatype search_result =
    Found "Assignment list"
  | Exhausted trail
  | OutOfBudget

function search ::
  "Snapshot \<Rightarrow> nat \<Rightarrow> variable list \<Rightarrow> Assignment list \<Rightarrow> search_result \<times> nat" where
  "search snap budget [] acc = (Found (rev acc), budget)"
| "search snap budget ((d, []) # vs) acc = (Exhausted [(d, WeeklyCoverage)], budget)"
| "search snap budget ((d, c # cs) # vs) acc =
     (if budget = 0 then (OutOfBudget, 0)
      else (case blocking snap c acc of
              Some k \<Rightarrow>
                (case search snap (budget - 1) ((d, cs) # vs) acc of
                   (Exhausted tr, b) \<Rightarrow> (Exhausted ((d, k) # tr), b)
                 | r \<Rightarrow> r)
            | None \<Rightarrow>
                (case search snap (budget - 1) (propagate snap c vs) (c # acc) of
                   (Exhausted tr, b) \<Rightarrow>
                     (case search snap b ((d, cs) # vs) acc of
                        (Exhausted tr', b') \<Rightarrow> (Exhausted (eliminated snap c vs @ tr @ tr'), b')
                      | r \<Rightarrow> r)
                 | r \<Rightarrow> r)))"
  by pat_completeness auto
termination
proof -
  have le: "sum_list (map (\<lambda>v. Suc (length (snd v))) (propagate snap a vs))
      \<le> sum_list (map (\<lambda>v. Suc (length (snd v))) vs)" for snap a and vs :: "variable list"
    by (induction vs) (simp_all add: propagate_def add_le_mono)
  have pruned: "sum_list (map (\<lambda>v. Suc (length (snd v))) (propagate snap a vs))
      < Suc (Suc (n + sum_list (map (\<lambda>v. Suc (length (snd v))) vs)))"
    for snap a n and vs :: "variable list"
    using le [of snap a vs] by simp
  show ?thesis
    by (relation "measure (\<lambda>(snap, budget, vs, acc). sum_list (map (\<lambda>v. Suc (length (snd v))) vs))")
       (auto simp: pruned)
qed

subsection \<open>Conflict reporter and result materializer\<close>

text \<open>
  Modelled from the spec: the reporter collapses the trail of blocking records to at most one
  conflict per demand, the first recorded for it.
\<close>

fun report_from :: "demand_key list \<Rightarrow> trail \<Rightarrow> Conflict list" where
  "report_from seen [] = []"
| "report_from seen ((d, k) # tr) =
     (if d \<in> set seen then report_from seen tr
      else \<lparr>kind = k, demand = d\<rparr> # report_from (d # seen) tr)"

definition report :: "trail \<Rightarrow> Conflict list" where
  "report tr = report_from [] tr"

text \<open>
  Modelled from the spec: the materializer turns each assignment into a timetable-entry record
  of the given timetable; the record is the TimetableEntry of app/models.py, not yet stored
  (no id), created at \<open>now\<close>.
\<close>

definition materialize :: "datetime \<Rightarrow> int \<Rightarrow> Assignment \<Rightarrow> TimetableEntry" where
  "materialize now tid a =
     \<lparr>TimetableEntry.id_pk = None, TimetableEntry.timetable_id = tid,
      TimetableEntry.course_id = Assignment.course_id a,
      TimetableEntry.teacher_id = Assignment.teacher_id a,
      TimetableEntry.room_id = Assignment.room_id a,
      TimetableEntry.section_id = Assignment.section_id a,
      TimetableEntry.time_slot_id = Assignment.time_slot_id a,
      TimetableEntry.notes = None,
      TimetableEntry.created_at = now, TimetableEntry.updated_at = now\<rparr>"

text \<open>
  Modelled from the spec: a generation run, constraint model, then solver, then materializer or
  conflict reporter. It returns the result together with the number of search steps it
  executed.
\<close>

definition generate ::
  "datetime \<Rightarrow> int \<Rightarrow> (string \<rightharpoonup> json) \<Rightarrow> Snapshot \<Rightarrow> (engine_error + TimetableEntry list) \<times> nat" where
  "generate now tid rules snap =
     (case build_model rules snap of
        Inl e \<Rightarrow> (Inl e, 0)
      | Inr vars \<Rightarrow>
          (case search snap (max_search_steps rules) vars [] of
             (Found asg, b) \<Rightarrow> (Inr (map (materialize now tid) asg), max_search_steps rules - b)
           | (Exhausted tr, b) \<Rightarrow> (Inl (SearchConflict (report tr)), max_search_steps rules - b)
           | (OutOfBudget, b) \<Rightarrow> (Inl TimeoutError, max_search_steps rules - b)))"

subsection \<open>The search without a budget, and feasibility\<close>

text \<open>
  Modelled from the spec: the same depth-first search when no step budget bounds it, as the
  budgeted search is compared with it below. It returns its result together with the number
  of steps it executed, one for each tentative assignment.
\<close>

function run :: "Snapshot \<Rightarrow> variable list \<Rightarrow> Assignment list \<Rightarrow> search_result \<times> nat" where
  "run snap [] acc = (Found (rev acc), 0)"
| "run snap ((d, []) # vs) acc = (Exhausted [(d, WeeklyCoverage)], 0)"
| "run snap ((d, c # cs) # vs) acc =
     (case blocking snap c acc of
        Some k \<Rightarrow>
          (case run snap ((d, cs) # vs) acc of
             (Exhausted tr, n) \<Rightarrow> (Exhausted ((d, k) # tr), Suc n)
           | (r, n) \<Rightarrow> (r, Suc n))
      | None \<Rightarrow>
          (case run snap (propagate snap c vs) (c # acc) of
             (Exhausted tr, n) \<Rightarrow>
               (case run snap ((d, cs) # vs) acc of
                  (Exhausted tr', m) \<Rightarrow> (Exhausted (eliminated snap c vs @ tr @ tr'), Suc (n + m))
                | (r, m) \<Rightarrow> (r, Suc (n + m)))
           | (r, n) \<Rightarrow> (r, Suc n)))"
  by pat_completeness auto
termination
proof -
  have le: "sum_list (map (\<lambda>v. Suc (length (snd v))) (propagate snap a vs))
      \<le> sum_list (map (\<lambda>v. Suc (length (snd v))) vs)" for snap a and vs :: "variable list"
    by (induction vs) (simp_all add: propagate_def add_le_mono)
  have pruned: "sum_list (map (\<lambda>v. Suc (length (snd v))) (propagate snap a vs))
      < Suc (Suc (n + sum_list (map (\<lambda>v. Suc (length (snd v))) vs)))"
    for snap a n and vs :: "variable list"
    using le [of snap a vs] by simp
  show ?thesis
    by (relation "measure (\<lambda>(snap, vs, acc). sum_list (map (\<lambda>v. Suc (length (snd v))) vs))")
       (auto simp: pruned)
qed

text \<open>
  Modelled from the spec: genuine feasibility. The variables can all be assigned when each
  can take one of its candidates that no hard constraint blocks relative to the choices made
  before it.
\<close>

fun completable :: "Snapshot \<Rightarrow> variable list \<Rightarrow> Assignment list \<Rightarrow> bool" where
  "completable snap [] acc = True"
| "completable snap ((d, cs) # vs) acc =
     (\<exists>c \<in> set cs. blocking snap c acc = None \<and> completable snap vs (c # acc))"

section \<open>Example values\<close>

text \<open>Concrete values at which the theorems below are instantiated.\<close>

definition t0900 :: time where
  "t0900 = \<lparr>hour = 9, minute = 0, second = 0, microsecond = 0\<rparr>"

definition t1000 :: time where
  "t1000 = \<lparr>hour = 10, minute = 0, second = 0, microsecond = 0\<rparr>"

definition sample_Course :: Course where
  "sample_Course =
     \<lparr>Course.id_pk = None, Course.course_code = ''CS101'', Course.name = ''Algorithms'',
      Course.description = None, Course.credits = 4, Course.course_type = ''THEORY'',
      Course.hours_per_week = 3, Course.required_room_type = Some ''LAB'',
      Course.required_equipment = [], Course.semester_number = 1, Course.department_id = 7,
      Course.prerequisites = [], Course.is_active = True, Course.created_at = 0,
      Course.updated_at = 0\<rparr>"

definition sample_CourseCreate :: CourseCreate where
  "sample_CourseCreate =
     \<lparr>CourseCreate.course_code = ''CS101'', CourseCreate.name = ''Algorithms'',
      CourseCreate.description = None, CourseCreate.credits = 4,
      CourseCreate.course_type = THEORY, CourseCreate.hours_per_week = 3,
      CourseCreate.required_room_type = Some RoomType.LAB,
      CourseCreate.required_equipment = [], CourseCreate.semester_number = 1,
      CourseCreate.department_id = 7, CourseCreate.prerequisites = []\<rparr>"

definition sample_Teacher :: "int \<Rightarrow> string list \<Rightarrow> Teacher" where
  "sample_Teacher h days =
     \<lparr>Teacher.id_pk = None, Teacher.employee_id = ''E1'', Teacher.first_name = ''Ada'',
      Teacher.last_name = ''Lovelace'', Teacher.email = ''ada@example.org'',
      Teacher.phone = None, Teacher.department_id = 7, Teacher.specializations = [],
      Teacher.max_hours_per_week = h, Teacher.preferred_time_slots = [],
      Teacher.unavailable_days = days, Teacher.is_active = True,
      Teacher.created_at = 0, Teacher.updated_at = 0\<rparr>"

definition sample_TeacherCreate :: "int \<Rightarrow> string list \<Rightarrow> TeacherCreate" where
  "sample_TeacherCreate h days =
     \<lparr>TeacherCreate.employee_id = ''E1'', TeacherCreate.first_name = ''Ada'',
      TeacherCreate.last_name = ''Lovelace'', TeacherCreate.email = ''ada@example.org'',
      TeacherCreate.phone = None, TeacherCreate.department_id = 7,
      TeacherCreate.specializations = [], TeacherCreate.max_hours_per_week = h,
      TeacherCreate.preferred_time_slots = [], TeacherCreate.unavailable_days = days\<rparr>"

definition sample_TeacherUpdate :: "int option \<Rightarrow> string list option \<Rightarrow> TeacherUpdate" where
  "sample_TeacherUpdate h days =
     \<lparr>TeacherUpdate.first_name = None, TeacherUpdate.last_name = None,
      TeacherUpdate.email = None, TeacherUpdate.phone = None,
      TeacherUpdate.specializations = None, TeacherUpdate.max_hours_per_week = h,
      TeacherUpdate.preferred_time_slots = None, TeacherUpdate.unavailable_days = days,
      TeacherUpdate.is_active = None\<rparr>"

definition sample_Timetable :: Timetable where
  "sample_Timetable =
     \<lparr>Timetable.id_pk = None, Timetable.name = ''Fall 2024'', Timetable.semester_id = 3,
      Timetable.status = ''DRAFT'', Timetable.generation_rules = Map.empty,
      Timetable.created_at = 0, Timetable.updated_at = 0,
      Timetable.generated_at = None, Timetable.generated_by = None\<rparr>"

definition sample_TimetableCreate :: TimetableCreate where
  "sample_TimetableCreate =
     \<lparr>TimetableCreate.name = ''Fall 2024'', TimetableCreate.semester_id = 3,
      TimetableCreate.generation_rules = Map.empty\<rparr>"

text \<open>
  A small working set: one teacher eligible for two courses of one section, two rooms, and
  one or two time slots on Monday.
\<close>

definition slot_mon9 :: TimeSlotResource where
  "slot_mon9 =
     \<lparr>slot_id = 1, day = MONDAY, TimeSlotResource.start_time = t0900,
      TimeSlotResource.end_time = t1000\<rparr>"

definition slot_mon10 :: TimeSlotResource where
  "slot_mon10 =
     \<lparr>slot_id = 2, day = MONDAY, TimeSlotResource.start_time = t1000,
      TimeSlotResource.end_time = \<lparr>hour = 11, minute = 0, second = 0, microsecond = 0\<rparr>\<rparr>"

definition teacher_ada :: TeacherCapacity where
  "teacher_ada =
     \<lparr>TeacherCapacity.teacher_id = 11, eligible_courses = [(101, True), (102, True)],
      TeacherCapacity.max_hours_per_week = 20, TeacherCapacity.unavailable_days = [],
      preferred_slots = [1]\<rparr>"

definition room_a :: RoomResource where
  "room_a =
     \<lparr>RoomResource.room_id = 21, capacity = 40, room_type = CLASSROOM, equipment = [],
      RoomResource.is_available = True\<rparr>"

definition room_b :: RoomResource where
  "room_b =
     \<lparr>RoomResource.room_id = 22, capacity = 40, room_type = CLASSROOM, equipment = [],
      RoomResource.is_available = True\<rparr>"

definition demand_algo :: CourseDemand where
  "demand_algo =
     \<lparr>CourseDemand.course_id = 101, CourseDemand.section_id = 31, section_capacity = 30,
      CourseDemand.hours_per_week = 1, CourseDemand.course_type = THEORY,
      CourseDemand.required_room_type = None, CourseDemand.required_equipment = []\<rparr>"

definition demand_logic :: CourseDemand where
  "demand_logic =
     \<lparr>CourseDemand.course_id = 102, CourseDemand.section_id = 31, section_capacity = 30,
      CourseDemand.hours_per_week = 1, CourseDemand.course_type = THEORY,
      CourseDemand.required_room_type = None, CourseDemand.required_equipment = []\<rparr>"

definition snapshot_two_slots :: Snapshot where
  "snapshot_two_slots =
     \<lparr>demands = [demand_algo, demand_logic], teachers = [teacher_ada],
      rooms = [room_a, room_b], slots = [slot_mon9, slot_mon10], published_entries = []\<rparr>"

definition snapshot_one_slot :: Snapshot where
  "snapshot_one_slot =
     \<lparr>demands = [demand_algo, demand_logic], teachers = [teacher_ada],
      rooms = [room_a, room_b], slots = [slot_mon9], published_entries = []\<rparr>"

definition snapshot_no_teacher :: Snapshot where
  "snapshot_no_teacher =
     \<lparr>demands = [demand_algo, demand_logic], teachers = [],
      rooms = [room_a, room_b], slots = [slot_mon9], published_entries = []\<rparr>"

definition entry_of :: "int \<Rightarrow> int \<Rightarrow> int \<Rightarrow> TimetableEntry" where
  "entry_of c r s =
     \<lparr>TimetableEntry.id_pk = None, TimetableEntry.timetable_id = 5,
      TimetableEntry.course_id = c, TimetableEntry.teacher_id = 11,
      TimetableEntry.room_id = r, TimetableEntry.section_id = 31,
      TimetableEntry.time_slot_id = s, TimetableEntry.notes = None,
      TimetableEntry.created_at = 0, TimetableEntry.updated_at = 0\<rparr>"

definition assignment_at :: "int \<Rightarrow> int \<Rightarrow> int \<Rightarrow> Assignment" where
  "assignment_at c r s =
     \<lparr>Assignment.course_id = c, Assignment.section_id = 31, Assignment.teacher_id = 11,
      Assignment.room_id = r, Assignment.time_slot_id = s\<rparr>"

definition variables_one_slot :: "variable list" where
  "variables_one_slot =
     [((101, 31), [assignment_at 101 21 1, assignment_at 101 22 1]),
      ((102, 31), [assignment_at 102 21 1, assignment_at 102 22 1])]"

definition trail_one_slot :: "(demand_key \<times> constraint_kind) list" where
  "trail_one_slot =
     [((102, 31), TeacherNonOverlap), ((102, 31), TeacherNonOverlap),
      ((102, 31), WeeklyCoverage), ((102, 31), TeacherNonOverlap),
      ((102, 31), TeacherNonOverlap), ((102, 31), WeeklyCoverage),
      ((101, 31), WeeklyCoverage)]"

section \<open>Properties of the schema\<close>

subsection \<open>Field checks\<close>

lemma check_max_length_Nil: "check_max_length fld n s = [] \<longleftrightarrow> length s \<le> n"
  by (simp add: check_max_length_def)

lemma check_ge_Nil: "check_ge fld n v = [] \<longleftrightarrow> n \<le> v"
  by (simp add: check_ge_def)

lemma check_le_Nil: "check_le fld n v = [] \<longleftrightarrow> v \<le> n"
  by (simp add: check_le_def)

lemma check_optional_Nil: "check_optional chk v = [] \<longleftrightarrow> (\<forall>x. v = Some x \<longrightarrow> chk x = [])"
  by (cases v) (simp_all add: check_optional_def)

lemma check_enum_Nil: "check_enum fld of_str s = [] \<longleftrightarrow> (\<exists>m. of_str s = Some m)"
  by (cases "of_str s") (simp_all add: check_enum_def)

lemmas check_defs = check_max_length_def check_ge_def check_le_def check_enum_def
  check_optional_def optional_enum_def with_default_def

lemmas enum_of_str_defs =
  DayOfWeek_of_str_def DayOfWeek_members_def CourseType_of_str_def CourseType_members_def
  RoomType_of_str_def RoomType_members_def TimetableStatus_of_str_def TimetableStatus_members_def

lemma find_value_eq: "find (\<lambda>m. f m = s) ms = Some m \<Longrightarrow> f m = s"
  by (induction ms) (auto split: if_splits)

subsection \<open>Time slots\<close>

lemma TimeSlotCreate_init_Inr:
  "TimeSlotCreate_init n s e d = Inr t \<longleftrightarrow>
     length n \<le> 50 \<and> (\<exists>m. DayOfWeek_of_str d = Some m \<and>
       t = \<lparr>TimeSlotCreate.name = n, TimeSlotCreate.start_time = s,
            TimeSlotCreate.end_time = e, TimeSlotCreate.day_of_week = m\<rparr>)"
  by (cases "DayOfWeek_of_str d")
     (auto simp: TimeSlotCreate_init_def check_max_length_def check_enum_def)

lemma TimeSlot_field_errors_Nil:
  "TimeSlot_field_errors n d = [] \<longleftrightarrow> length n \<le> 50 \<and> (\<exists>m. DayOfWeek_of_str d = Some m)"
  by (simp add: TimeSlot_field_errors_def check_max_length_Nil check_enum_Nil)

lemma TimeSlot_model_validate_Inr:
  "TimeSlot_model_validate now i n s e d act ca = Inr t \<longleftrightarrow>
     length n \<le> 50 \<and> (\<exists>m. DayOfWeek_of_str d = Some m)
     \<and> t = TimeSlot_init now i n s e d act ca"
  using TimeSlot_field_errors_Nil [of n d]
  by (cases "TimeSlot_field_errors n d") (auto simp: TimeSlot_model_validate_def)

text \<open>
  C2, as stated: every TimeSlot accepted by construction or validation has its start time
  strictly before its end time. The classes declare no such check: a slot from 10:00 to 09:00
  is accepted.
\<close>

theorem TimeSlot_start_before_end_counterexample:
  "TimeSlotCreate_init ''Period 1'' t1000 t0900 ''MONDAY''
     = Inr \<lparr>TimeSlotCreate.name = ''Period 1'', TimeSlotCreate.start_time = t1000,
            TimeSlotCreate.end_time = t0900, TimeSlotCreate.day_of_week = MONDAY\<rparr>
   \<and> \<not> time_less t1000 t0900"
  by (simp add: TimeSlotCreate_init_Inr enum_of_str_defs time_less_def t1000_def t0900_def)

text \<open>
  C2, amended: TimeSlot and TimeSlotCreate store the start and end time they are given and
  place no constraint on them. Whenever a slot is accepted, by TimeSlotCreate or by the
  validation of TimeSlot, the same arguments with any other start and end time are accepted
  too; the constructor of TimeSlot accepts every pair of times.
\<close>

theorem TimeSlot_times_unconstrained:
  "(TimeSlotCreate_init n s e d = Inr t \<longrightarrow>
      TimeSlotCreate.start_time t = s \<and> TimeSlotCreate.end_time t = e \<and>
      TimeSlotCreate_init n s' e' d
        = Inr (t\<lparr>TimeSlotCreate.start_time := s', TimeSlotCreate.end_time := e'\<rparr>)) \<and>
   (TimeSlot_model_validate now i n s e d act ca = Inr u \<longrightarrow>
      TimeSlot.start_time u = s \<and> TimeSlot.end_time u = e \<and>
      TimeSlot_model_validate now i n s' e' d act ca
        = Inr (u\<lparr>TimeSlot.start_time := s', TimeSlot.end_time := e'\<rparr>)) \<and>
   TimeSlot.start_time (TimeSlot_init now i n s e d act ca) = s \<and>
   TimeSlot.end_time (TimeSlot_init now i n s e d act ca) = e"
  by (auto simp: TimeSlotCreate_init_Inr TimeSlot_model_validate_Inr TimeSlot_init_def)

theorem TimeSlot_times_unconstrained_witness:
  "TimeSlotCreate_init ''Period 1'' t0900 t1000 ''MONDAY''
     = Inr \<lparr>TimeSlotCreate.name = ''Period 1'', TimeSlotCreate.start_time = t0900,
            TimeSlotCreate.end_time = t1000, TimeSlotCreate.day_of_week = MONDAY\<rparr>
   \<and> TimeSlotCreate_init ''Period 1'' t1000 t0900 ''MONDAY''
     = Inr \<lparr>TimeSlotCreate.name = ''Period 1'', TimeSlotCreate.start_time = t1000,
            TimeSlotCreate.end_time = t0900, TimeSlotCreate.day_of_week = MONDAY\<rparr>
   \<and> TimeSlot_model_validate 0 None ''Period 1'' t0900 t1000 ''MONDAY'' None None
     = Inr \<lparr>TimeSlot.id_pk = None, TimeSlot.name = ''Period 1'', TimeSlot.start_time = t0900,
            TimeSlot.end_time = t1000, TimeSlot.day_of_week = ''MONDAY'',
            TimeSlot.is_active = True, TimeSlot.created_at = 0\<rparr>
   \<and> TimeSlot_model_validate 0 None ''Period 1'' t1000 t0900 ''MONDAY'' None None
     = Inr \<lparr>TimeSlot.id_pk = None, TimeSlot.name = ''Period 1'', TimeSlot.start_time = t1000,
            TimeSlot.end_time = t0900, TimeSlot.day_of_week = ''MONDAY'',
            TimeSlot.is_active = True, TimeSlot.created_at = 0\<rparr>
   \<and> TimeSlot.start_time (TimeSlot_init 0 None ''Period 1'' t0900 t1000 ''MONDAY'' None None)
     = t0900
   \<and> TimeSlot.end_time (TimeSlot_init 0 None ''Period 1'' t0900 t1000 ''MONDAY'' None None)
     = t1000"
  using TimeSlot_times_unconstrained [of "''Period 1''" t0900 t1000 "''MONDAY''"
      "\<lparr>TimeSlotCreate.name = ''Period 1'', TimeSlotCreate.start_time = t0900,
            TimeSlotCreate.end_time = t1000, TimeSlotCreate.day_of_week = MONDAY\<rparr>"
      t1000 t0900 0 None None None
      "\<lparr>TimeSlot.id_pk = None, TimeSlot.name = ''Period 1'', TimeSlot.start_time = t0900,
            TimeSlot.end_time = t1000, TimeSlot.day_of_week = ''MONDAY'',
            TimeSlot.is_active = True, TimeSlot.created_at = 0\<rparr>"]
  by (simp add: TimeSlotCreate_init_def TimeSlot_model_validate_def TimeSlot_field_errors_def
      TimeSlot_init_def check_defs enum_of_str_defs)

subsection \<open>Courses\<close>

lemma Course_field_errors_hours:
  "Course_field_errors cc n d cr ct h rrt sn = [] \<Longrightarrow> 1 \<le> h \<and> h \<le> 10"
  by (simp add: Course_field_errors_def check_ge_Nil check_le_Nil)

lemma Course_init_hours:
  "Course.hours_per_week
     (Course_init nc nu i cc n d cr ct h rrt re sn dep pre act ca ua) = h"
  by (simp add: Course_init_def)

lemma Course_model_validate_Inr:
  "Course_model_validate nc nu i cc n d cr ct h rrt re sn dep pre act ca ua = Inr c
   \<Longrightarrow> Course_field_errors cc n d cr ct h rrt sn = [] \<and> Course.hours_per_week c = h"
  by (cases "Course_field_errors cc n d cr ct h rrt sn")
     (auto simp: Course_model_validate_def Course_init_hours)

lemma CourseCreate_init_Inr:
  "CourseCreate_init cc n d cr ct h rrt re sn dep pre = Inr c
   \<Longrightarrow> Course_field_errors cc n d cr ct h rrt sn = [] \<and> CourseCreate.hours_per_week c = h"
  by (auto simp: CourseCreate_init_def split: list.splits option.splits)

lemma Course_model_validate_sample:
  "Course_model_validate 0 0 None ''CS101'' ''Algorithms'' None 4 ''THEORY'' 3 (Some ''LAB'')
     None 1 7 None None None None = Inr sample_Course"
  by (simp add: Course_model_validate_def Course_init_def Course_field_errors_def check_defs
      enum_of_str_defs sample_Course_def)

lemma CourseCreate_init_sample:
  "CourseCreate_init ''CS101'' ''Algorithms'' None 4 ''THEORY'' 3 (Some ''LAB'') None 1 7 None
     = Inr sample_CourseCreate"
  by (simp add: CourseCreate_init_def Course_field_errors_def check_defs enum_of_str_defs
      sample_CourseCreate_def)

lemma Course_hours_per_week_positive_when_validated:
  "(Course_model_validate nc nu i cc n d cr ct h rrt re sn dep pre act ca ua = Inr c
      \<longrightarrow> 0 < Course.hours_per_week c) \<and>
   (CourseCreate_init cc n d cr ct h rrt re sn dep pre = Inr c'
      \<longrightarrow> 0 < CourseCreate.hours_per_week c')"
  using Course_model_validate_Inr [of nc nu i cc n d cr ct h rrt re sn dep pre act ca ua c]
    CourseCreate_init_Inr [of cc n d cr ct h rrt re sn dep pre c']
    Course_field_errors_hours [of cc n d cr ct h rrt sn]
  by auto

text \<open>
  C6: every Course value accepted by construction or validation has strictly positive
  weekly hours. The code does not do this on construction: Course declares
  \<open>hours_per_week\<close> with \<open>Field(ge=1, le=10)\<close>, but it is a persistent class and its
  constructor runs no validation, so a Course with zero weekly hours is constructed and
  holds the zero. The validation of Course and the constructor of the schema class
  CourseCreate, which declare the same constraint, reject the same arguments.
\<close>

theorem Course_constructor_accepts_zero_hours:
  "Course.hours_per_week
     (Course_init 0 0 None ''CS101'' ''Algorithms'' None 4 ''THEORY'' 0 (Some ''LAB'')
        None 1 7 None None None None) = 0
   \<and> \<not> 0 < Course.hours_per_week
        (Course_init 0 0 None ''CS101'' ''Algorithms'' None 4 ''THEORY'' 0 (Some ''LAB'')
           None 1 7 None None None None)
   \<and> Course_model_validate 0 0 None ''CS101'' ''Algorithms'' None 4 ''THEORY'' 0 (Some ''LAB'')
        None 1 7 None None None None = Inl [greater_than_equal ''hours_per_week'' 1]
   \<and> CourseCreate_init ''CS101'' ''Algorithms'' None 4 ''THEORY'' 0 (Some ''LAB'') None 1 7 None
        = Inl [greater_than_equal ''hours_per_week'' 1]"
  by (simp add: Course_init_def Course_model_validate_def CourseCreate_init_def
      Course_field_errors_def check_defs enum_of_str_defs)

text \<open>
  C8: every Course and CourseCreate value accepted by validation has weekly hours between
  1 and 10. For the persistent class Course, validation is \<open>Course.model_validate\<close>; for
  the schema class CourseCreate it is the constructor.
\<close>

theorem Course_hours_per_week_bounds:
  "(Course_model_validate nc nu i cc n d cr ct h rrt re sn dep pre act ca ua = Inr c
      \<longrightarrow> 1 \<le> Course.hours_per_week c \<and> Course.hours_per_week c \<le> 10) \<and>
   (CourseCreate_init cc n d cr ct h rrt re sn dep pre = Inr c'
      \<longrightarrow> 1 \<le> CourseCreate.hours_per_week c' \<and> CourseCreate.hours_per_week c' \<le> 10)"
  using Course_model_validate_Inr [of nc nu i cc n d cr ct h rrt re sn dep pre act ca ua c]
    CourseCreate_init_Inr [of cc n d cr ct h rrt re sn dep pre c']
    Course_field_errors_hours [of cc n d cr ct h rrt sn]
  by auto

theorem Course_hours_per_week_bounds_witness:
  "Course_model_validate 0 0 None ''CS101'' ''Algorithms'' None 4 ''THEORY'' 3 (Some ''LAB'')
     None 1 7 None None None None = Inr sample_Course
   \<and> 1 \<le> Course.hours_per_week sample_Course \<and> Course.hours_per_week sample_Course \<le> 10
   \<and> CourseCreate_init ''CS101'' ''Algorithms'' None 4 ''THEORY'' 3 (Some ''LAB'') None 1 7 None
     = Inr sample_CourseCreate
   \<and> 1 \<le> CourseCreate.hours_per_week sample_CourseCreate
   \<and> CourseCreate.hours_per_week sample_CourseCreate \<le> 10"
  using Course_hours_per_week_bounds [of 0 0 None "''CS101''" "''Algorithms''" None 4
      "''THEORY''" 3 "Some ''LAB''" None 1 7 None None None None sample_Course
      sample_CourseCreate]
    Course_model_validate_sample CourseCreate_init_sample
  by simp

subsection \<open>Teachers\<close>

lemma Teacher_field_errors_Nil:
  "Teacher_field_errors e f l m p h = [] \<longleftrightarrow>
     length e \<le> 20 \<and> length f \<le> 50 \<and> length l \<le> 50 \<and> length m \<le> 255
     \<and> (\<forall>x. p = Some x \<longrightarrow> length x \<le> 20) \<and> 1 \<le> h \<and> h \<le> 40"
  by (simp add: Teacher_field_errors_def check_max_length_Nil check_ge_Nil check_le_Nil
      check_optional_Nil)

lemma Teacher_model_validate_Inr:
  "Teacher_model_validate nc nu i e f l m p dep sp mh pts ud act ca ua = Inr t \<longleftrightarrow>
     Teacher_field_errors e f l m p (with_default 20 mh) = [] \<and>
     t = Teacher_init nc nu i e f l m p dep sp mh pts ud act ca ua"
  by (cases "Teacher_field_errors e f l m p (with_default 20 mh)")
     (auto simp: Teacher_model_validate_def)

lemma Teacher_init_sample:
  "Teacher_init 0 0 None ''E1'' ''Ada'' ''Lovelace'' ''ada@example.org'' None 7 None mh None ud
     None None None = sample_Teacher (with_default 20 mh) (with_default [] ud)"
  by (simp add: Teacher_init_def sample_Teacher_def with_default_def)

lemma TeacherCreate_init_Inr:
  "TeacherCreate_init e f l m p dep sp mh pts ud = Inr t \<longleftrightarrow>
     Teacher_field_errors e f l m p (with_default 20 mh) = [] \<and>
     t = \<lparr>TeacherCreate.employee_id = e, TeacherCreate.first_name = f,
          TeacherCreate.last_name = l, TeacherCreate.email = m, TeacherCreate.phone = p,
          TeacherCreate.department_id = dep,
          TeacherCreate.specializations = with_default [] sp,
          TeacherCreate.max_hours_per_week = with_default 20 mh,
          TeacherCreate.preferred_time_slots = with_default [] pts,
          TeacherCreate.unavailable_days = with_default [] ud\<rparr>"
  by (cases "Teacher_field_errors e f l m p (with_default 20 mh)")
     (auto simp: TeacherCreate_init_def)

lemma TeacherUpdate_init_Inr:
  "TeacherUpdate_init f l m p sp mh pts ud act = Inr u \<longleftrightarrow>
     (\<forall>x. f = Some x \<longrightarrow> length x \<le> 50) \<and> (\<forall>x. l = Some x \<longrightarrow> length x \<le> 50)
     \<and> (\<forall>x. m = Some x \<longrightarrow> length x \<le> 255) \<and> (\<forall>x. p = Some x \<longrightarrow> length x \<le> 20)
     \<and> (\<forall>v. mh = Some v \<longrightarrow> 1 \<le> v \<and> v \<le> 40)
     \<and> u = \<lparr>TeacherUpdate.first_name = f, TeacherUpdate.last_name = l,
            TeacherUpdate.email = m, TeacherUpdate.phone = p,
            TeacherUpdate.specializations = sp, TeacherUpdate.max_hours_per_week = mh,
            TeacherUpdate.preferred_time_slots = pts, TeacherUpdate.unavailable_days = ud,
            TeacherUpdate.is_active = act\<rparr>"
proof -
  let ?errs = "check_optional (check_max_length ''first_name'' 50) f
           @ check_optional (check_max_length ''last_name'' 50) l
           @ check_optional (check_max_length ''email'' 255) m
           @ check_optional (check_max_length ''phone'' 20) p
           @ check_optional (check_ge ''max_hours_per_week'' 1) mh
           @ check_optional (check_le ''max_hours_per_week'' 40) mh"
  have "?errs = [] \<longleftrightarrow>
     (\<forall>x. f = Some x \<longrightarrow> length x \<le> 50) \<and> (\<forall>x. l = Some x \<longrightarrow> length x \<le> 50)
     \<and> (\<forall>x. m = Some x \<longrightarrow> length x \<le> 255) \<and> (\<forall>x. p = Some x \<longrightarrow> length x \<le> 20)
     \<and> (\<forall>v. mh = Some v \<longrightarrow> 1 \<le> v \<and> v \<le> 40)"
    by (auto simp: check_optional_Nil check_max_length_Nil check_ge_Nil check_le_Nil)
  then show ?thesis
    by (cases ?errs) (auto simp: TeacherUpdate_init_def)
qed

text \<open>
  C10: a teacher's \<open>max_hours_per_week\<close> is 20 when it is not supplied, to Teacher or to
  TeacherCreate, and every value accepted on create or update, by TeacherCreate or by
  TeacherUpdate, lies between 1 and 40; so does every value the validation of Teacher
  accepts.
\<close>

theorem Teacher_max_hours_per_week_default_and_bounds:
  "(TeacherCreate_init e f l m p dep sp mh pts ud = Inr t \<longrightarrow>
      (mh = None \<longrightarrow> TeacherCreate.max_hours_per_week t = 20)
      \<and> 1 \<le> TeacherCreate.max_hours_per_week t \<and> TeacherCreate.max_hours_per_week t \<le> 40) \<and>
   (TeacherUpdate_init uf ul um up usp umh upts uud uact = Inr u \<longrightarrow>
      TeacherUpdate.max_hours_per_week u = umh
      \<and> (\<forall>v. umh = Some v \<longrightarrow> 1 \<le> v \<and> v \<le> 40)) \<and>
   Teacher.max_hours_per_week
     (Teacher_init nc nu i e f l m p dep sp None pts ud act ca ua) = 20 \<and>
   (Teacher_model_validate nc nu i e f l m p dep sp mh pts ud act ca ua = Inr t' \<longrightarrow>
      (mh = None \<longrightarrow> Teacher.max_hours_per_week t' = 20)
      \<and> 1 \<le> Teacher.max_hours_per_week t' \<and> Teacher.max_hours_per_week t' \<le> 40)"
  by (auto simp: TeacherCreate_init_Inr Teacher_model_validate_Inr TeacherUpdate_init_Inr
      Teacher_field_errors_Nil Teacher_init_def with_default_def)

theorem Teacher_max_hours_per_week_default_and_bounds_witness:
  "TeacherCreate_init ''E1'' ''Ada'' ''Lovelace'' ''ada@example.org'' None 7 None None None None
     = Inr (sample_TeacherCreate 20 [])
   \<and> TeacherCreate.max_hours_per_week (sample_TeacherCreate 20 []) = 20
   \<and> TeacherUpdate_init None None None None None (Some 30) None None None
     = Inr (sample_TeacherUpdate (Some 30) None)
   \<and> TeacherUpdate.max_hours_per_week (sample_TeacherUpdate (Some 30) None) = Some 30
   \<and> (1::int) \<le> 30 \<and> (30::int) \<le> 40
   \<and> Teacher.max_hours_per_week
       (Teacher_init 0 0 None ''E1'' ''Ada'' ''Lovelace'' ''ada@example.org'' None 7 None None
          None None None None None) = 20
   \<and> Teacher_model_validate 0 0 None ''E1'' ''Ada'' ''Lovelace'' ''ada@example.org'' None 7
       None None None None None None None = Inr (sample_Teacher 20 [])
   \<and> Teacher.max_hours_per_week (sample_Teacher 20 []) = 20"
  using Teacher_max_hours_per_week_default_and_bounds [of "''E1''" "''Ada''" "''Lovelace''"
      "''ada@example.org''" None 7 None None None None "sample_TeacherCreate 20 []"
      None None None None None "Some 30" None None None "sample_TeacherUpdate (Some 30) None"
      0 0 None None None None "sample_Teacher 20 []"]
  by (simp add: TeacherCreate_init_Inr Teacher_model_validate_Inr TeacherUpdate_init_Inr
      Teacher_field_errors_Nil Teacher_init_def sample_TeacherCreate_def sample_Teacher_def
      sample_TeacherUpdate_def with_default_def)

subsection \<open>Timetables\<close>

lemma Timetable_init_sample:
  "Timetable_init 0 0 None ''Fall 2024'' 3 None None None None None None = sample_Timetable"
  by (simp add: Timetable_init_def sample_Timetable_def with_default_def)

lemma Timetable_field_errors_defaults:
  "Timetable_field_errors n None None = [] \<longleftrightarrow> length n \<le> 100"
  by (simp add: Timetable_field_errors_def check_max_length_Nil check_optional_Nil)

lemma Timetable_model_validate_defaults:
  "Timetable_model_validate nc nu i n sid None None ca ua None None = Inr t \<longleftrightarrow>
     length n \<le> 100 \<and> t = Timetable_init nc nu i n sid None None ca ua None None"
  using Timetable_field_errors_defaults [of n]
  by (cases "Timetable_field_errors n None None") (auto simp: Timetable_model_validate_def)

lemma TimetableCreate_init_defaults:
  "TimetableCreate_init n sid None = Inr c \<longleftrightarrow>
     length n \<le> 100 \<and>
     c = \<lparr>TimetableCreate.name = n, TimetableCreate.semester_id = sid,
          TimetableCreate.generation_rules = Map.empty\<rparr>"
  by (auto simp: TimetableCreate_init_def check_defs)

text \<open>
  C9: a Timetable constructed without values for its optional fields has status DRAFT, empty
  generation rules, and neither generation time nor generator, and so has one that
  validation accepts; a TimetableCreate without generation rules has empty generation rules.
\<close>

theorem Timetable_defaults:
  "Timetable.status (Timetable_init nc nu None n sid None None None None None None)
     = TimetableStatus_value DRAFT \<and>
   Timetable.generation_rules (Timetable_init nc nu None n sid None None None None None None)
     = Map.empty \<and>
   Timetable.generated_at (Timetable_init nc nu None n sid None None None None None None)
     = None \<and>
   Timetable.generated_by (Timetable_init nc nu None n sid None None None None None None)
     = None \<and>
   (Timetable_model_validate nc nu i n sid None None ca ua None None = Inr t \<longrightarrow>
      Timetable.status t = TimetableStatus_value DRAFT
      \<and> Timetable.generation_rules t = Map.empty
      \<and> Timetable.generated_at t = None \<and> Timetable.generated_by t = None) \<and>
   (TimetableCreate_init n sid None = Inr c \<longrightarrow>
      TimetableCreate.generation_rules c = Map.empty)"
  by (auto simp: Timetable_model_validate_defaults TimetableCreate_init_defaults
      Timetable_init_def with_default_def)

theorem Timetable_defaults_witness:
  "Timetable_init 0 0 None ''Fall 2024'' 3 None None None None None None = sample_Timetable
   \<and> Timetable.status sample_Timetable = ''DRAFT''
   \<and> Timetable.generation_rules sample_Timetable = Map.empty
   \<and> Timetable.generated_at sample_Timetable = None
   \<and> Timetable.generated_by sample_Timetable = None
   \<and> Timetable_model_validate 0 0 None ''Fall 2024'' 3 None None None None None None
       = Inr sample_Timetable
   \<and> TimetableCreate_init ''Fall 2024'' 3 None = Inr sample_TimetableCreate
   \<and> TimetableCreate.generation_rules sample_TimetableCreate = Map.empty"
  using Timetable_defaults [of 0 0 "''Fall 2024''" 3 None None None sample_Timetable
      sample_TimetableCreate]
    Timetable_init_sample
  by (simp add: Timetable_model_validate_defaults TimetableCreate_init_def check_defs
      sample_TimetableCreate_def)

subsection \<open>Enumerations\<close>

lemma DayOfWeek_of_str_Some: "DayOfWeek_of_str s = Some m \<Longrightarrow> DayOfWeek_value m = s"
  unfolding DayOfWeek_of_str_def by (rule find_value_eq)

lemma CourseType_of_str_Some: "CourseType_of_str s = Some m \<Longrightarrow> CourseType_value m = s"
  unfolding CourseType_of_str_def by (rule find_value_eq)

lemma RoomType_of_str_Some: "RoomType_of_str s = Some m \<Longrightarrow> RoomType_value m = s"
  unfolding RoomType_of_str_def by (rule find_value_eq)

lemma TimetableStatus_of_str_Some:
  "TimetableStatus_of_str s = Some m \<Longrightarrow> TimetableStatus_value m = s"
  unfolding TimetableStatus_of_str_def by (rule find_value_eq)

lemma enum_of_str_closed:
  "(DayOfWeek_of_str sd = Some dw \<longrightarrow> DayOfWeek_value dw = sd) \<and>
   (CourseType_of_str sc = Some ct \<longrightarrow> CourseType_value ct = sc) \<and>
   (RoomType_of_str sr = Some rt \<longrightarrow> RoomType_value rt = sr) \<and>
   (TimetableStatus_of_str ss = Some st \<longrightarrow> TimetableStatus_value st = ss) \<and>
   (TimeSlotCreate_init n ts te d = Inr slot \<longrightarrow>
      DayOfWeek_value (TimeSlotCreate.day_of_week slot) = d)"
  by (auto simp: TimeSlotCreate_init_Inr
      dest: DayOfWeek_of_str_Some CourseType_of_str_Some RoomType_of_str_Some
        TimetableStatus_of_str_Some)

text \<open>
  C7: every element stored in a teacher's \<open>unavailable_days\<close> is one of the seven
  DayOfWeek variants, never an arbitrary string. The code does not do this: the field is
  declared \<open>List[str]\<close>, so TeacherCreate and Teacher accept and store a list holding the
  string FUNDAY, which is the value of no DayOfWeek member and which TimeSlotCreate, whose
  field \<open>day_of_week\<close> is declared with the enumeration type, rejects.
\<close>

theorem unavailable_days_accepts_open_string:
  "TeacherCreate_init ''E1'' ''Ada'' ''Lovelace'' ''ada@example.org'' None 7 None None None
       (Some [''FUNDAY''])
     = Inr (sample_TeacherCreate 20 [''FUNDAY''])
   \<and> TeacherCreate.unavailable_days (sample_TeacherCreate 20 [''FUNDAY'']) = [''FUNDAY'']
   \<and> Teacher_init 0 0 None ''E1'' ''Ada'' ''Lovelace'' ''ada@example.org'' None 7 None None None
       (Some [''FUNDAY'']) None None None
     = sample_Teacher 20 [''FUNDAY'']
   \<and> Teacher_model_validate 0 0 None ''E1'' ''Ada'' ''Lovelace'' ''ada@example.org'' None 7
       None None None (Some [''FUNDAY'']) None None None
     = Inr (sample_Teacher 20 [''FUNDAY''])
   \<and> Teacher.unavailable_days (sample_Teacher 20 [''FUNDAY'']) = [''FUNDAY'']
   \<and> DayOfWeek_of_str ''FUNDAY'' = None
   \<and> TimeSlotCreate_init ''Period 1'' t0900 t1000 ''FUNDAY'' = Inl [enum_error ''day_of_week'']"
  by (simp add: TeacherCreate_init_Inr Teacher_model_validate_Inr Teacher_field_errors_Nil
      Teacher_init_def sample_TeacherCreate_def sample_Teacher_def with_default_def
      enum_of_str_defs TimeSlotCreate_init_def check_defs)

section \<open>Properties of the generation engine\<close>

subsection \<open>Non-overlap of the generated entries\<close>

lemma overlapping_sym: "overlapping a b \<longleftrightarrow> overlapping b a"
  by (auto simp: overlapping_def)

lemma slots_overlap_sym: "slots_overlap snap i j \<longleftrightarrow> slots_overlap snap j i"
  using overlapping_sym
  by (auto simp: slots_overlap_def split: option.splits)

lemma clash_kind_sym: "clash_kind snap a b = None \<longleftrightarrow> clash_kind snap b a = None"
  using slots_overlap_sym [of snap "Assignment.time_slot_id a" "Assignment.time_slot_id b"]
  by (auto simp: clash_kind_def)

lemma map_filter_Nil: "List.map_filter f xs = [] \<longleftrightarrow> (\<forall>x \<in> set xs. f x = None)"
  by (induction xs) (auto simp: List.map_filter_simps split: option.splits)

lemma blocking_None_no_clash:
  "blocking snap c acc = None \<Longrightarrow> b \<in> set acc \<Longrightarrow> clash_kind snap c b = None"
  by (auto simp: blocking_def map_filter_Nil split: list.splits if_splits)

lemma search_Found_no_clash:
  "search snap budget vs acc = (Found asg, b') \<Longrightarrow>
   sorted_wrt (\<lambda>a b. clash_kind snap a b = None) acc \<Longrightarrow>
   sorted_wrt (\<lambda>a b. clash_kind snap a b = None) (rev asg)"
proof (induction snap budget vs acc arbitrary: asg b' rule: search.induct)
  case (1 snap budget acc)
  then show ?case by auto
next
  case (2 snap budget d vs acc)
  then show ?case by simp
next
  case (3 snap budget d c cs vs acc)
  from "3.prems"(1) have nz: "budget \<noteq> 0"
    by (auto split: if_splits)
  show ?case
  proof (cases "blocking snap c acc")
    case (Some k)
    with "3.prems"(1) nz
    have "search snap (budget - 1) ((d, cs) # vs) acc = (Found asg, b')"
      by (auto split: prod.splits search_result.splits)
    with "3.IH"(3) [OF nz Some] "3.prems"(2) show ?thesis by blast
  next
    case None
    have acc': "sorted_wrt (\<lambda>a b. clash_kind snap a b = None) (c # acc)"
      using "3.prems"(2) blocking_None_no_clash [OF None] by simp
    obtain r1 b1 where first: "search snap (budget - 1) (propagate snap c vs) (c # acc) = (r1, b1)"
      by (cases "search snap (budget - 1) (propagate snap c vs) (c # acc)")
    show ?thesis
    proof (cases r1)
      case (Found asg1)
      with "3.prems"(1) nz None first have "asg1 = asg" by simp
      with "3.IH"(1) [OF nz None] first Found acc' show ?thesis by blast
    next
      case (Exhausted tr)
      with "3.prems"(1) nz None first
      have second: "search snap b1 ((d, cs) # vs) acc = (Found asg, b')"
        by (auto split: prod.splits search_result.splits)
      show ?thesis
        by (rule "3.IH"(2) [OF nz None first [symmetric] Exhausted second "3.prems"(2)])
    next
      case OutOfBudget
      with "3.prems"(1) nz None first show ?thesis by simp
    qed
  qed
qed


lemma no_clash_nth:
  assumes "sorted_wrt (\<lambda>a b. clash_kind snap a b = None) xs" and "i < j" and "j < length xs"
  shows "clash_kind snap (xs ! i) (xs ! j) = None"
  using assms by (simp add: sorted_wrt_iff_nth_less)

lemma no_clash_rev:
  "sorted_wrt (\<lambda>a b. clash_kind snap a b = None) (rev xs) \<Longrightarrow> sorted_wrt (\<lambda>a b. clash_kind snap a b = None) xs"
proof -
  assume "sorted_wrt (\<lambda>a b. clash_kind snap a b = None) (rev xs)"
  then have "sorted_wrt (\<lambda>a b. clash_kind snap b a = None) xs"
    by (simp add: sorted_wrt_rev)
  moreover have "(\<lambda>a b. clash_kind snap b a = None) = (\<lambda>a b. clash_kind snap a b = None)"
    using clash_kind_sym by blast
  ultimately show ?thesis by simp
qed

lemma generate_Inr:
  "generate now tid rules snap = (Inr entries, used) \<Longrightarrow>
   \<exists>vars asg b. build_model rules snap = Inr vars
     \<and> search snap (max_search_steps rules) vars [] = (Found asg, b)
     \<and> entries = map (materialize now tid) asg"
  by (auto simp: generate_def split: sum.splits prod.splits search_result.splits)

lemma generate_two_slots:
  "generate 0 5 [''max_search_steps'' \<mapsto> JInt 10] snapshot_two_slots
     = (Inr [entry_of 101 21 1, entry_of 102 21 2], 2)"
  by code_simp

text \<open>
  C1: in every generated timetable result, two entries that share the teacher, the room or
  the section have time slots that do not overlap.
\<close>

theorem generated_entries_do_not_overlap:
  assumes "generate now tid rules snap = (Inr entries, used)"
    and "i < j" and "j < length entries"
    and "TimetableEntry.teacher_id (entries ! i) = TimetableEntry.teacher_id (entries ! j)
       \<or> TimetableEntry.room_id (entries ! i) = TimetableEntry.room_id (entries ! j)
       \<or> TimetableEntry.section_id (entries ! i) = TimetableEntry.section_id (entries ! j)"
  shows "\<not> slots_overlap snap (TimetableEntry.time_slot_id (entries ! i))
           (TimetableEntry.time_slot_id (entries ! j))"
proof -
  from generate_Inr [OF assms(1)] obtain vars asg b where
    found: "search snap (max_search_steps rules) vars [] = (Found asg, b)"
    and entries: "entries = map (materialize now tid) asg"
    by blast
  have "sorted_wrt (\<lambda>a b. clash_kind snap a b = None) (rev asg)"
    using search_Found_no_clash [OF found] by simp
  then have free: "sorted_wrt (\<lambda>a b. clash_kind snap a b = None) asg"
    by (rule no_clash_rev)
  from assms(2,3) entries have len: "i < length asg" "j < length asg"
    by simp_all
  have "clash_kind snap (asg ! i) (asg ! j) = None"
    using no_clash_nth [OF free assms(2)] len by simp
  with assms(4) entries len show ?thesis
    by (auto simp: clash_kind_def materialize_def split: if_splits)
qed

theorem generated_entries_do_not_overlap_witness:
  "generate 0 5 [''max_search_steps'' \<mapsto> JInt 10] snapshot_two_slots
     = (Inr [entry_of 101 21 1, entry_of 102 21 2], 2)
   \<and> (0::nat) < 1 \<and> 1 < length [entry_of 101 21 1, entry_of 102 21 2]
   \<and> TimetableEntry.teacher_id ([entry_of 101 21 1, entry_of 102 21 2] ! 0)
       = TimetableEntry.teacher_id ([entry_of 101 21 1, entry_of 102 21 2] ! 1)
   \<and> \<not> slots_overlap snapshot_two_slots
         (TimetableEntry.time_slot_id ([entry_of 101 21 1, entry_of 102 21 2] ! 0))
         (TimetableEntry.time_slot_id ([entry_of 101 21 1, entry_of 102 21 2] ! 1))"
  using generated_entries_do_not_overlap [of 0 5 "[''max_search_steps'' \<mapsto> JInt 10]"
      snapshot_two_slots "[entry_of 101 21 1, entry_of 102 21 2]" 2 0 1]
    generate_two_slots
  by (simp add: entry_of_def)

subsection \<open>Static infeasibility\<close>

lemma check_demands_finds:
  "d \<in> set ds \<Longrightarrow> eligible_teachers snap d = [] \<or> fitting_rooms snap d = [] \<Longrightarrow>
   \<exists>d' r. check_demands snap ds = Some (ModelError d' r) \<and> d' \<in> set ds
     \<and> (r = NoEligibleTeacher \<longrightarrow> eligible_teachers snap d' = [])
     \<and> (r = NoFittingRoom \<longrightarrow> eligible_teachers snap d' \<noteq> [] \<and> fitting_rooms snap d' = [])"
  by (induction ds) auto

lemma generate_no_teacher:
  "generate 0 5 [''max_search_steps'' \<mapsto> JInt 10] snapshot_no_teacher
     = (Inl (ModelError demand_algo NoEligibleTeacher), 0)"
  by (simp add: generate_def build_model_def snapshot_no_teacher_def eligible_teachers_def)

text \<open>
  C3: when a demand of the snapshot has no eligible teacher or no fitting room, the run fails
  with a ModelError having executed no search step, whatever the step budget is. The error
  carries a demand of the snapshot together with the reason that holds of it, and it is the
  given demand when no other demand is statically infeasible.
\<close>

theorem model_error_before_search:
  assumes "d \<in> set (demands snap)"
    and "eligible_teachers snap d = [] \<or> fitting_rooms snap d = []"
  shows "\<exists>d' r. generate now tid rules snap = (Inl (ModelError d' r), 0)
     \<and> d' \<in> set (demands snap)
     \<and> (r = NoEligibleTeacher \<longrightarrow> eligible_teachers snap d' = [])
     \<and> (r = NoFittingRoom \<longrightarrow> fitting_rooms snap d' = [])
     \<and> ((\<forall>x \<in> set (demands snap). x \<noteq> d \<longrightarrow>
            eligible_teachers snap x \<noteq> [] \<and> fitting_rooms snap x \<noteq> []) \<longrightarrow> d' = d)"
proof -
  from check_demands_finds [OF assms] obtain d' r where
    chk: "check_demands snap (demands snap) = Some (ModelError d' r)"
    and mem: "d' \<in> set (demands snap)"
    and r1: "r = NoEligibleTeacher \<longrightarrow> eligible_teachers snap d' = []"
    and r2: "r = NoFittingRoom \<longrightarrow> eligible_teachers snap d' \<noteq> [] \<and> fitting_rooms snap d' = []"
    by blast
  have bad: "eligible_teachers snap d' = [] \<or> fitting_rooms snap d' = []"
    using r1 r2 by (cases r) auto
  from chk have "generate now tid rules snap = (Inl (ModelError d' r), 0)"
    by (simp add: generate_def build_model_def)
  with mem r1 r2 bad show ?thesis by blast
qed

theorem model_error_before_search_witness:
  "demand_algo \<in> set (demands snapshot_no_teacher)
   \<and> eligible_teachers snapshot_no_teacher demand_algo = []
   \<and> generate 0 5 [''max_search_steps'' \<mapsto> JInt 10] snapshot_no_teacher
       = (Inl (ModelError demand_algo NoEligibleTeacher), 0)"
  using model_error_before_search [of demand_algo snapshot_no_teacher 0 5
      "[''max_search_steps'' \<mapsto> JInt 10]"]
    generate_no_teacher
  by (simp add: snapshot_no_teacher_def eligible_teachers_def)

subsection \<open>Step budget\<close>

lemma run_not_OutOfBudget: "run snap vs acc \<noteq> (OutOfBudget, n)"
proof (induction snap vs acc arbitrary: n rule: run.induct)
  case (1 snap acc)
  then show ?case by simp
next
  case (2 snap d vs acc)
  then show ?case by simp
next
  case (3 snap d c cs vs acc)
  show ?case
  proof (cases "blocking snap c acc")
    case (Some k)
    with "3.IH"(3) [OF Some] show ?thesis
      by (auto split: prod.splits search_result.splits)
  next
    case None
    obtain r1 n1 where first: "run snap (propagate snap c vs) (c # acc) = (r1, n1)"
      by (cases "run snap (propagate snap c vs) (c # acc)")
    show ?thesis
    proof (cases r1)
      case (Found asg)
      with None first show ?thesis by simp
    next
      case (Exhausted tr)
      with "3.IH"(2) [OF None first [symmetric] Exhausted] None first show ?thesis
        by (auto split: prod.splits search_result.splits)
    next
      case OutOfBudget
      with "3.IH"(1) [OF None, of n1] first show ?thesis by simp
    qed
  qed
qed


lemma search_run:
  "search snap b vs acc =
     (case run snap vs acc of (r, n) \<Rightarrow> if n \<le> b then (r, b - n) else (OutOfBudget, 0))"
proof (induction snap vs acc arbitrary: b rule: run.induct)
  case (1 snap acc)
  then show ?case by simp
next
  case (2 snap d vs acc)
  then show ?case by simp
next
  case (3 snap d c cs vs acc)
  show ?case
  proof (cases "blocking snap c acc")
    case (Some k)
    obtain r0 n0 where rest: "run snap ((d, cs) # vs) acc = (r0, n0)"
      by (cases "run snap ((d, cs) # vs) acc")
    have ih: "search snap (b - 1) ((d, cs) # vs) acc =
        (if n0 \<le> b - 1 then (r0, b - 1 - n0) else (OutOfBudget, 0))"
      using "3.IH"(3) [OF Some, of "b - 1"] rest by simp
    have "r0 \<noteq> OutOfBudget"
      using run_not_OutOfBudget [of snap "(d, cs) # vs" acc n0] rest by auto
    then show ?thesis
      using Some rest ih by (cases r0) auto
  next
    case None
    obtain r1 n1 where first: "run snap (propagate snap c vs) (c # acc) = (r1, n1)"
      by (cases "run snap (propagate snap c vs) (c # acc)")
    have ih1: "search snap (b - 1) (propagate snap c vs) (c # acc) =
        (if n1 \<le> b - 1 then (r1, b - 1 - n1) else (OutOfBudget, 0))"
      using "3.IH"(1) [OF None, of "b - 1"] first by simp
    have r1: "r1 \<noteq> OutOfBudget"
      using run_not_OutOfBudget [of snap "propagate snap c vs" "c # acc" n1] first by auto
    show ?thesis
    proof (cases r1)
      case (Found asg)
      with None first ih1 show ?thesis by auto
    next
      case (Exhausted tr)
      obtain r2 n2 where second: "run snap ((d, cs) # vs) acc = (r2, n2)"
        by (cases "run snap ((d, cs) # vs) acc")
      have ih2: "search snap (b - 1 - n1) ((d, cs) # vs) acc =
          (if n2 \<le> b - 1 - n1 then (r2, b - 1 - n1 - n2) else (OutOfBudget, 0))"
        using "3.IH"(2) [OF None first [symmetric] Exhausted, of "b - 1 - n1"] second by simp
      have r2: "r2 \<noteq> OutOfBudget"
        using run_not_OutOfBudget [of snap "(d, cs) # vs" acc n2] second by auto
      show ?thesis
        using None first Exhausted second ih1 ih2 r2 by (cases r2) auto
    next
      case OutOfBudget
      with r1 show ?thesis by simp
    qed
  qed
qed

lemma completable_propagate:
  "a \<in> set acc \<Longrightarrow> completable snap (propagate snap a vs) acc \<longleftrightarrow> completable snap vs acc"
proof (induction vs arbitrary: acc)
  case Nil
  then show ?case by (simp add: propagate_def)
next
  case (Cons v vs)
  obtain d cs where v: "v = (d, cs)" by (cases v)
  have step: "propagate snap a ((d, cs) # vs)
      = (d, filter (\<lambda>c. clash_kind snap c a = None) cs) # propagate snap a vs"
    by (simp add: propagate_def)
  have keep: "blocking snap c acc = None \<Longrightarrow> clash_kind snap c a = None" for c
    using blocking_None_no_clash [of snap c acc a] Cons.prems by simp
  have ih: "completable snap (propagate snap a vs) (c # acc) \<longleftrightarrow> completable snap vs (c # acc)"
    for c
    using Cons.IH [of "c # acc"] Cons.prems by simp
  show ?case
    unfolding v step using keep ih by auto
qed

lemma run_completable:
  "(\<exists>asg. fst (run snap vs acc) = Found asg) \<longleftrightarrow> completable snap vs acc"
proof (induction snap vs acc rule: run.induct)
  case (1 snap acc)
  then show ?case by simp
next
  case (2 snap d vs acc)
  then show ?case by simp
next
  case (3 snap d c cs vs acc)
  have split: "completable snap ((d, c # cs) # vs) acc \<longleftrightarrow>
      (blocking snap c acc = None \<and> completable snap vs (c # acc))
      \<or> completable snap ((d, cs) # vs) acc"
    by auto
  show ?case
  proof (cases "blocking snap c acc")
    case (Some k)
    with "3.IH"(3) [OF Some] split show ?thesis
      by (auto split: prod.splits search_result.splits)
  next
    case None
    obtain r1 n1 where first: "run snap (propagate snap c vs) (c # acc) = (r1, n1)"
      by (cases "run snap (propagate snap c vs) (c # acc)")
    show ?thesis
    proof (cases r1)
      case (Found asg)
      with "3.IH"(1) [OF None] None first split
        completable_propagate [of c "c # acc" snap vs]
      show ?thesis by auto
    next
      case (Exhausted tr)
      with "3.IH"(1) [OF None] first completable_propagate [of c "c # acc" snap vs]
      have "\<not> completable snap vs (c # acc)" by simp
      with "3.IH"(2) [OF None first [symmetric] Exhausted] None first Exhausted split
      show ?thesis
        by (auto split: prod.splits search_result.splits)
    next
      case OutOfBudget
      with run_not_OutOfBudget [of snap "propagate snap c vs" "c # acc" n1] first show ?thesis by simp
    qed
  qed
qed

lemma build_model_one_slot:
  "build_model [''max_search_steps'' \<mapsto> JInt 1] snapshot_one_slot = Inr variables_one_slot"
  "build_model [''max_search_steps'' \<mapsto> JInt 10] snapshot_one_slot = Inr variables_one_slot"
  by code_simp+

lemma run_one_slot:
  "run snapshot_one_slot variables_one_slot [] = (Exhausted trail_one_slot, 2)"
  by code_simp

lemma generate_one_slot:
  "generate 0 5 [''max_search_steps'' \<mapsto> JInt 1] snapshot_one_slot = (Inl TimeoutError, 1)"
  "generate 0 5 [''max_search_steps'' \<mapsto> JInt 10] snapshot_one_slot
     = (Inl (SearchConflict [\<lparr>kind = TeacherNonOverlap, demand = (102, 31)\<rparr>,
                             \<lparr>kind = WeeklyCoverage, demand = (101, 31)\<rparr>]), 2)"
  by code_simp+

lemma max_search_steps_samples:
  "max_search_steps [''max_search_steps'' \<mapsto> JInt 1] = 1"
  "max_search_steps [''max_search_steps'' \<mapsto> JInt 10] = 10"
  by (simp_all add: max_search_steps_def)

text \<open>
  C5: let the search, when nothing bounds it, take \<open>n\<close> steps. If the configured budget
  \<open>max_search_steps\<close> is smaller than \<open>n\<close>, the run ends with TimeoutError, not with a
  SearchConflict, having used the whole budget. If the budget is at least \<open>n\<close>, the run
  does not time out and uses \<open>n\<close> steps. A run ends with a SearchConflict only within its
  budget and only when the variables cannot all be assigned.
\<close>

theorem timeout_only_on_budget_exhaustion:
  assumes "build_model rules snap = Inr vars" and "run snap vars [] = (r, n)"
  shows "(max_search_steps rules < n \<longrightarrow>
            generate now tid rules snap = (Inl TimeoutError, max_search_steps rules)
            \<and> fst (generate now tid rules snap) \<noteq> Inl (SearchConflict cs))
       \<and> (n \<le> max_search_steps rules \<longrightarrow>
            fst (generate now tid rules snap) \<noteq> Inl TimeoutError
            \<and> snd (generate now tid rules snap) = n)
       \<and> (fst (generate now tid rules snap) = Inl (SearchConflict cs) \<longrightarrow>
            n \<le> max_search_steps rules \<and> \<not> completable snap vars [])"
proof -
  have r: "r \<noteq> OutOfBudget"
    using run_not_OutOfBudget [of snap vars "[]" n] assms(2) by auto
  have s: "search snap (max_search_steps rules) vars [] =
      (if n \<le> max_search_steps rules then (r, max_search_steps rules - n) else (OutOfBudget, 0))"
    using search_run [of snap "max_search_steps rules" vars "[]"] assms(2) by simp
  have c: "r = Exhausted tr \<Longrightarrow> \<not> completable snap vars []" for tr
    using run_completable [of snap vars "[]"] assms(2) by auto
  show ?thesis
    using assms(1) r s c by (cases r) (auto simp: generate_def)
qed

theorem timeout_only_on_budget_exhaustion_witness:
  "build_model [''max_search_steps'' \<mapsto> JInt 1] snapshot_one_slot = Inr variables_one_slot
   \<and> build_model [''max_search_steps'' \<mapsto> JInt 10] snapshot_one_slot = Inr variables_one_slot
   \<and> run snapshot_one_slot variables_one_slot [] = (Exhausted trail_one_slot, 2)
   \<and> max_search_steps [''max_search_steps'' \<mapsto> JInt 1] < 2
   \<and> generate 0 5 [''max_search_steps'' \<mapsto> JInt 1] snapshot_one_slot = (Inl TimeoutError, 1)
   \<and> 2 \<le> max_search_steps [''max_search_steps'' \<mapsto> JInt 10]
   \<and> generate 0 5 [''max_search_steps'' \<mapsto> JInt 10] snapshot_one_slot
       = (Inl (SearchConflict [\<lparr>kind = TeacherNonOverlap, demand = (102, 31)\<rparr>,
                               \<lparr>kind = WeeklyCoverage, demand = (101, 31)\<rparr>]), 2)
   \<and> \<not> completable snapshot_one_slot variables_one_slot []"
  using timeout_only_on_budget_exhaustion [of "[''max_search_steps'' \<mapsto> JInt 1]"
      snapshot_one_slot variables_one_slot "Exhausted trail_one_slot" 2 0 5
      "[\<lparr>kind = TeacherNonOverlap, demand = (102, 31)\<rparr>,
        \<lparr>kind = WeeklyCoverage, demand = (101, 31)\<rparr>]"]
    timeout_only_on_budget_exhaustion [of "[''max_search_steps'' \<mapsto> JInt 10]"
      snapshot_one_slot variables_one_slot "Exhausted trail_one_slot" 2 0 5
      "[\<lparr>kind = TeacherNonOverlap, demand = (102, 31)\<rparr>,
        \<lparr>kind = WeeklyCoverage, demand = (101, 31)\<rparr>]"]
    build_model_one_slot run_one_slot generate_one_slot max_search_steps_samples
  by simp

end
